theory Spec2Isabelle
  imports Main
begin

section \<open>Values, errors and the persisted schema\<close>

text \<open>
  The module \<^verbatim>\<open>contract_event_recorders.py\<close> reads chain events (Python dictionaries)
  and writes three tables through parameterised SQL statements. A Python value that
  reaches the code from an event is a \<open>pyval\<close>; a \<open>str\<close> is kept as its UTF-8 bytes, so
  \<open>bytes\<close> and \<open>str\<close> share the representation \<open>string\<close>. A datetime is kept as its
  POSIX timestamp, so \<^verbatim>\<open>datetime.fromtimestamp\<close> is the identity on it.
\<close>

datatype pyval = PNone | PInt int | PStr string

datatype error =
    KeyError string
  | TypeError
  | AttributeError
  | ValueError
  | DataError
  | ExternalFailure string

type_synonym bytes = string

type_synonym pydict = "string \<rightharpoonup> pyval"

datatype OrderState = OPEN | FILLED | CANCELED

datatype OrderSource = ONCHANIN | OFFCHAIN

text \<open>
  The columns of \<^verbatim>\<open>orders\<close>, in the order of \<^verbatim>\<open>UPSERT_CANCELED_ORDER_STMT\<close>. The type
  parameter is the type of the numeric columns: \<open>pyval\<close> in the argument tuple that
  Python builds, \<open>int\<close> in a stored row. The signature components are suffixed, the
  other names are the column names.
\<close>

record 'n order_cols =
  source :: OrderSource
  signature :: bytes
  token_give :: bytes
  amount_give :: 'n
  token_get :: bytes
  amount_get :: 'n
  expires :: 'n
  nonce :: 'n
  user :: bytes
  state :: OrderState
  v_col :: int
  r_col :: bytes
  s_col :: bytes
  date :: int
  amount_fill :: 'n
  updated :: int

type_synonym order_row = "int order_cols"

section \<open>The fill update\<close>

text \<open>
  \<^verbatim>\<open>UPDATE_ORDER_FILL_STMT\<close>: the \<^verbatim>\<open>SET\<close> clause, evaluated on the old row as SQL does,
  with \<open>$1\<close> the fill amount and \<open>$2\<close> the timestamp.
\<close>

definition fill_set :: "int \<Rightarrow> int \<Rightarrow> order_row \<Rightarrow> order_row" where
  "fill_set p1 p2 row =
     row\<lparr>amount_fill := max (amount_fill row) p1,
         state := (if state row \<in> {FILLED, CANCELED} then state row
                   else if amount_get row \<le> max (amount_fill row) p1 then FILLED
                   else OPEN),
         updated := p2\<rparr>"

text \<open>
  The statement on the table: every row whose signature is \<open>$3\<close> is rewritten, and the
  store reports the number of rows it touched.
\<close>

definition UPDATE_ORDER_FILL_STMT ::
  "int \<times> int \<times> bytes \<Rightarrow> order_row list \<Rightarrow> nat \<times> order_row list" where
  "UPDATE_ORDER_FILL_STMT p tbl =
     (case p of (p1, p2, p3) \<Rightarrow>
        (length (filter (\<lambda>row. signature row = p3) tbl),
         map (\<lambda>row. if signature row = p3 then fill_set p1 p2 row else row) tbl))"

section \<open>Python helpers\<close>

text \<open>\<open>d[k]\<close> on a dictionary raises \<open>KeyError\<close> when the key is absent.\<close>

definition getitem :: "pydict \<Rightarrow> string \<Rightarrow> error + pyval" where
  "getitem d k = (case d k of None \<Rightarrow> Inl (KeyError k) | Some x \<Rightarrow> Inr x)"

text \<open>Sequencing of computations that may raise: the first exception ends the run.\<close>

fun bind_e :: "error + 'a \<Rightarrow> ('a \<Rightarrow> error + 'b) \<Rightarrow> error + 'b" where
  "bind_e (Inl e) f = Inl e"
| "bind_e (Inr x) f = f x"

text \<open>
  The collaborators that the module imports or reaches through \<^verbatim>\<open>App()\<close> and
  \<^verbatim>\<open>contract\<close>, none of which is defined in the module: the helpers
  \<^verbatim>\<open>coerce_to_int\<close>, \<open>block_timestamp\<close> and \<open>make_order_hash\<close>, the decoding
  \<^verbatim>\<open>Web3.toBytes(hexstr=...)\<close>, the encoding \<^verbatim>\<open>Web3.toHex\<close>, the contract's accessor
  \<^verbatim>\<open>orderFills\<close>, and the parsing that the builtin \<open>int\<close> does on a \<open>str\<close>. Each is a
  parameter; those that can raise return a sum.
\<close>

record collaborators =
  coerce_to_int :: "pyval \<Rightarrow> error + int"
  block_timestamp :: "pyval \<Rightarrow> error + int"
  make_order_hash :: "pydict \<Rightarrow> error + pyval"
  toBytes_hexstr :: "pyval \<Rightarrow> error + bytes"
  toHex :: "bytes \<Rightarrow> string"
  orderFills :: "string \<Rightarrow> bytes \<Rightarrow> error + int"
  int_of_str :: "string \<Rightarrow> error + int"

text \<open>
  \<^verbatim>\<open>Web3.toBytes(text=x)\<close>: the library first requires exactly one of its arguments to
  be other than \<open>None\<close> and raises \<open>TypeError\<close> otherwise; then it returns
  \<^verbatim>\<open>x.encode('utf-8')\<close>, which an \<open>int\<close> does not have.
\<close>

fun toBytes_text :: "pyval \<Rightarrow> error + bytes" where
  "toBytes_text PNone = Inl TypeError"
| "toBytes_text (PStr t) = Inr t"
| "toBytes_text (PInt n) = Inl AttributeError"

text \<open>The builtin \<open>int(x)\<close>: \<open>int(None)\<close> raises \<open>TypeError\<close>.\<close>

fun py_int :: "collaborators \<Rightarrow> pyval \<Rightarrow> error + int" where
  "py_int env PNone = Inl TypeError"
| "py_int env (PInt n) = Inr n"
| "py_int env (PStr t) = int_of_str env t"

text \<open>\<^verbatim>\<open>Web3.toBytes(hexstr=d[k])\<close>.\<close>

definition hex_item :: "collaborators \<Rightarrow> pydict \<Rightarrow> string \<Rightarrow> error + bytes" where
  "hex_item env d k = bind_e (getitem d k) (toBytes_hexstr env)"

text \<open>
  An event carries \<^verbatim>\<open>blockNumber\<close>, \<^verbatim>\<open>transactionHash\<close>, \<^verbatim>\<open>logIndex\<close> and the
  dictionary \<^verbatim>\<open>args\<close>, whose keys depend on the kind of event.
\<close>

record event =
  blockNumber :: pyval
  transactionHash :: pyval
  logIndex :: pyval
  args :: pydict

definition ZERO_ADDR :: string where
  "ZERO_ADDR = ''0x0000000000000000000000000000000000000000''"

section \<open>The store\<close>

text \<open>The columns of \<^verbatim>\<open>trades\<close> and \<^verbatim>\<open>transfers\<close>, prefixed with the table's name.\<close>

record 'n trade_cols =
  trade_block_number :: int
  trade_transaction_hash :: bytes
  trade_log_index :: int
  trade_token_give :: bytes
  trade_amount_give :: 'n
  trade_token_get :: bytes
  trade_amount_get :: 'n
  trade_addr_give :: bytes
  trade_addr_get :: bytes
  trade_date :: int

record 'n transfer_cols =
  transfer_block_number :: int
  transfer_transaction_hash :: bytes
  transfer_log_index :: int
  transfer_direction :: string
  transfer_token :: bytes
  transfer_user :: bytes
  transfer_amount :: 'n
  transfer_balance_after :: 'n
  transfer_date :: int

datatype level = DEBUG | INFO | WARNING

text \<open>
  What the handlers can change: the three tables, the calls made to the contract's
  \<^verbatim>\<open>orderFills\<close> accessor (maker, signature), in order, and the records handed to the
  logger (level and format string). A connection is taken to be available whenever one
  is acquired.
\<close>

record world =
  orders :: "order_row list"
  trades :: "int trade_cols list"
  transfers :: "int transfer_cols list"
  lookups :: "(string \<times> bytes) list"
  logged :: "(level \<times> string) list"

definition emit :: "level \<Rightarrow> string \<Rightarrow> world \<Rightarrow> world" where
  "emit lv msg w = w\<lparr>logged := logged w @ [(lv, msg)]\<rparr>"

text \<open>
  A handler returns its result, or the exception it raised, together with the world it
  leaves behind: what was written before an exception stays written. \<open>attempt\<close> runs a
  step that does not touch the world and continues, or raises in the world as it is.
\<close>

fun attempt ::
  "error + 'a \<Rightarrow> world \<Rightarrow> ('a \<Rightarrow> (error + 'b) \<times> world) \<Rightarrow> (error + 'b) \<times> world" where
  "attempt (Inl e) w f = (Inl e, w)"
| "attempt (Inr x) w f = f x"

text \<open>
  A numeric parameter of a statement must be an integer: the store refuses anything
  else when the statement is executed, before a row is touched. The numeric columns are
  taken to be \<^verbatim>\<open>NOT NULL\<close>.
\<close>

fun db_numeric :: "pyval \<Rightarrow> error + int" where
  "db_numeric (PInt n) = Inr n"
| "db_numeric PNone = Inl DataError"
| "db_numeric (PStr t) = Inl DataError"

definition encode_order :: "pyval order_cols \<Rightarrow> error + order_row" where
  "encode_order a =
     bind_e (db_numeric (amount_give a)) (\<lambda>ag.
     bind_e (db_numeric (amount_get a)) (\<lambda>at.
     bind_e (db_numeric (expires a)) (\<lambda>ex.
     bind_e (db_numeric (nonce a)) (\<lambda>no.
     bind_e (db_numeric (amount_fill a)) (\<lambda>af.
       Inr \<lparr>source = source a, signature = signature a,
            token_give = token_give a, amount_give = ag,
            token_get = token_get a, amount_get = at,
            expires = ex, nonce = no, user = user a, state = state a,
            v_col = v_col a, r_col = r_col a, s_col = s_col a, date = date a,
            amount_fill = af, updated = updated a\<rparr>)))))"

definition encode_trade :: "pyval trade_cols \<Rightarrow> error + int trade_cols" where
  "encode_trade a =
     bind_e (db_numeric (trade_amount_give a)) (\<lambda>ag.
     bind_e (db_numeric (trade_amount_get a)) (\<lambda>at.
       Inr \<lparr>trade_block_number = trade_block_number a,
            trade_transaction_hash = trade_transaction_hash a,
            trade_log_index = trade_log_index a,
            trade_token_give = trade_token_give a, trade_amount_give = ag,
            trade_token_get = trade_token_get a, trade_amount_get = at,
            trade_addr_give = trade_addr_give a, trade_addr_get = trade_addr_get a,
            trade_date = trade_date a\<rparr>))"

definition encode_transfer :: "pyval transfer_cols \<Rightarrow> error + int transfer_cols" where
  "encode_transfer a =
     bind_e (db_numeric (transfer_amount a)) (\<lambda>am.
     bind_e (db_numeric (transfer_balance_after a)) (\<lambda>ba.
       Inr \<lparr>transfer_block_number = transfer_block_number a,
            transfer_transaction_hash = transfer_transaction_hash a,
            transfer_log_index = transfer_log_index a,
            transfer_direction = transfer_direction a,
            transfer_token = transfer_token a, transfer_user = transfer_user a,
            transfer_amount = am, transfer_balance_after = ba,
            transfer_date = transfer_date a\<rparr>))"

text \<open>
  Modelled from the spec: \<^verbatim>\<open>parse_insert_status\<close> (module \<^verbatim>\<open>utils\<close>) is not among the
  sources. The store reports an insert as command, oid and row count, and the handlers
  take the third part of what \<^verbatim>\<open>parse_insert_status\<close> returns as the count of rows
  written.
\<close>

definition insert_status :: "nat \<Rightarrow> string \<times> nat \<times> nat" where
  "insert_status n = (''INSERT'', 0, n)"

definition parse_insert_status :: "string \<times> nat \<times> nat \<Rightarrow> string \<times> nat \<times> nat" where
  "parse_insert_status st = st"

section \<open>Recording trades and transfers\<close>

text \<open>
  Modelled from the spec: the constraints \<^verbatim>\<open>index_trades_on_event_identifier\<close> and
  \<^verbatim>\<open>index_transfers_on_event_identifier\<close> are declared with the schema, which is
  not among the sources. By the specification each table is unique on the pair
  (transaction hash, log index), the key of a row.
\<close>

definition trade_key :: "'n trade_cols \<Rightarrow> bytes \<times> int" where
  "trade_key row = (trade_transaction_hash row, trade_log_index row)"

definition transfer_key :: "'n transfer_cols \<Rightarrow> bytes \<times> int" where
  "transfer_key row = (transfer_transaction_hash row, transfer_log_index row)"

text \<open>
  \<^verbatim>\<open>INSERT_TRADE_STMT\<close> and \<^verbatim>\<open>INSERT_TRANSFER_STMT\<close>: a row is appended unless a
  stored row has its key, and then nothing is written (\<^verbatim>\<open>ON CONFLICT ... DO NOTHING\<close>).
  The store reports the number of rows inserted.
\<close>

definition INSERT_TRADE_STMT ::
  "int trade_cols \<Rightarrow> int trade_cols list \<Rightarrow> nat \<times> int trade_cols list" where
  "INSERT_TRADE_STMT p tbl =
     (if trade_key p \<in> set (map trade_key tbl) then (0, tbl) else (1, tbl @ [p]))"

definition INSERT_TRANSFER_STMT ::
  "int transfer_cols \<Rightarrow> int transfer_cols list \<Rightarrow> nat \<times> int transfer_cols list" where
  "INSERT_TRANSFER_STMT p tbl =
     (if transfer_key p \<in> set (map transfer_key tbl) then (0, tbl) else (1, tbl @ [p]))"

text \<open>The tuple \<^verbatim>\<open>insert_args\<close> of \<^verbatim>\<open>record_trade\<close>, built left to right.\<close>

definition trade_insert_args :: "collaborators \<Rightarrow> event \<Rightarrow> error + pyval trade_cols" where
  "trade_insert_args env ev =
     bind_e (coerce_to_int env (blockNumber ev)) (\<lambda>block_number.
     bind_e (coerce_to_int env (logIndex ev)) (\<lambda>log_index.
     bind_e (block_timestamp env (blockNumber ev)) (\<lambda>date.
     bind_e (toBytes_hexstr env (transactionHash ev)) (\<lambda>tx.
     bind_e (hex_item env (args ev) ''tokenGive'') (\<lambda>tg.
     bind_e (getitem (args ev) ''amountGive'') (\<lambda>ag.
     bind_e (hex_item env (args ev) ''tokenGet'') (\<lambda>tt.
     bind_e (getitem (args ev) ''amountGet'') (\<lambda>at.
     bind_e (hex_item env (args ev) ''give'') (\<lambda>give.
     bind_e (hex_item env (args ev) ''get'') (\<lambda>get.
       Inr \<lparr>trade_block_number = block_number, trade_transaction_hash = tx,
            trade_log_index = log_index,
            trade_token_give = tg, trade_amount_give = ag,
            trade_token_get = tt, trade_amount_get = at,
            trade_addr_give = give, trade_addr_get = get,
            trade_date = date\<rparr>))))))))))"

definition record_trade :: "collaborators \<Rightarrow> event \<Rightarrow> world \<Rightarrow> (error + bool) \<times> world" where
  "record_trade env ev w =
     attempt (trade_insert_args env ev) w (\<lambda>insert_args.
     attempt (encode_trade insert_args) w (\<lambda>params.
       (case INSERT_TRADE_STMT params (trades w) of (n, tbl) \<Rightarrow>
        (case parse_insert_status (insert_status n) of (_, _, did_insert) \<Rightarrow>
           (Inr (did_insert \<noteq> 0),
            (if did_insert \<noteq> 0
             then emit DEBUG ''recorded trade txid=%s, logidx=%i'' (w\<lparr>trades := tbl\<rparr>)
             else w\<lparr>trades := tbl\<rparr>))))))"

text \<open>The tuple \<^verbatim>\<open>insert_args\<close> of \<^verbatim>\<open>record_transfer\<close>.\<close>

definition transfer_insert_args ::
  "collaborators \<Rightarrow> string \<Rightarrow> event \<Rightarrow> error + pyval transfer_cols" where
  "transfer_insert_args env direction ev =
     bind_e (coerce_to_int env (blockNumber ev)) (\<lambda>block_number.
     bind_e (coerce_to_int env (logIndex ev)) (\<lambda>log_index.
     bind_e (block_timestamp env (PInt block_number)) (\<lambda>date.
     bind_e (toBytes_hexstr env (transactionHash ev)) (\<lambda>tx.
     bind_e (hex_item env (args ev) ''token'') (\<lambda>token.
     bind_e (hex_item env (args ev) ''user'') (\<lambda>usr.
     bind_e (getitem (args ev) ''amount'') (\<lambda>amount.
     bind_e (getitem (args ev) ''balance'') (\<lambda>balance.
       Inr \<lparr>transfer_block_number = block_number, transfer_transaction_hash = tx,
            transfer_log_index = log_index, transfer_direction = direction,
            transfer_token = token, transfer_user = usr,
            transfer_amount = amount, transfer_balance_after = balance,
            transfer_date = date\<rparr>))))))))"

definition record_transfer ::
  "collaborators \<Rightarrow> string \<Rightarrow> event \<Rightarrow> world \<Rightarrow> (error + bool) \<times> world" where
  "record_transfer env direction ev w =
     attempt (transfer_insert_args env direction ev) w (\<lambda>insert_args.
     attempt (encode_transfer insert_args) w (\<lambda>params.
       (case INSERT_TRANSFER_STMT params (transfers w) of (n, tbl) \<Rightarrow>
        (case parse_insert_status (insert_status n) of (_, _, did_insert) \<Rightarrow>
           (Inr (did_insert \<noteq> 0), w\<lparr>transfers := tbl\<rparr>)))))"

text \<open>
  \<^verbatim>\<open>record_deposit\<close> and \<^verbatim>\<open>record_withdraw\<close> log an insertion; the log index is
  coerced again for the message.
\<close>

definition log_transfer ::
  "collaborators \<Rightarrow> string \<Rightarrow> event \<Rightarrow> (error + bool) \<times> world \<Rightarrow> (error + bool) \<times> world" where
  "log_transfer env msg ev res =
     (case res of
        (Inl e, w) \<Rightarrow> (Inl e, w)
      | (Inr did_insert, w) \<Rightarrow>
          if did_insert
          then attempt (coerce_to_int env (logIndex ev)) w
                 (\<lambda>_. (Inr did_insert, emit INFO msg w))
          else (Inr did_insert, w))"

definition record_deposit :: "collaborators \<Rightarrow> event \<Rightarrow> world \<Rightarrow> (error + bool) \<times> world" where
  "record_deposit env ev w =
     log_transfer env ''recorded deposit txid=%s, logidx=%i'' ev
       (record_transfer env ''DEPOSIT'' ev w)"

definition record_withdraw :: "collaborators \<Rightarrow> event \<Rightarrow> world \<Rightarrow> (error + bool) \<times> world" where
  "record_withdraw env ev w =
     log_transfer env ''recorded withdraw txid=%s, logidx=%i'' ev
       (record_transfer env ''WITHDRAW'' ev w)"

section \<open>Refreshing the orders a trade affects\<close>

text \<open>\<^verbatim>\<open>FETCH_AFFECTED_ORDERS_STMT\<close>: the rows that satisfy the \<^verbatim>\<open>WHERE\<close> clause.\<close>

definition FETCH_AFFECTED_ORDERS_STMT ::
  "bytes \<Rightarrow> bytes \<Rightarrow> int \<Rightarrow> order_row list \<Rightarrow> order_row list" where
  "FETCH_AFFECTED_ORDERS_STMT p1 p2 p3 tbl =
     filter (\<lambda>row. user row = p1 \<and> (token_give row = p2 \<or> token_get row = p2)
                   \<and> expires row \<ge> p3) tbl"

definition fetch_affected_orders ::
  "collaborators \<Rightarrow> pyval \<Rightarrow> pyval \<Rightarrow> int \<Rightarrow> world \<Rightarrow> error + order_row list" where
  "fetch_affected_orders env order_maker coin_addr expiring_at w =
     bind_e (toBytes_hexstr env order_maker) (\<lambda>maker.
     bind_e (toBytes_hexstr env coin_addr) (\<lambda>coin.
       Inr (FETCH_AFFECTED_ORDERS_STMT maker coin expiring_at (orders w))))"

text \<open>
  \<^verbatim>\<open>update_order_fills\<close>: the loop over the fetched rows. For each row the timestamp of
  the latest block is read, then the contract is asked for the fill of (maker,
  signature), then the statement is executed. \<^verbatim>\<open>Web3.toBytes\<close> of the stored
  signature, which is \<open>bytes\<close> already, returns it as it is.
\<close>

fun update_order_fills ::
  "collaborators \<Rightarrow> order_row list \<Rightarrow> world \<Rightarrow> (error + unit) \<times> world" where
  "update_order_fills env [] w = (Inr (), w)"
| "update_order_fills env (order # rest) w =
     attempt (block_timestamp env (PStr ''latest'')) w (\<lambda>updated_at.
       attempt (orderFills env (toHex env (user order)) (signature order))
         (w\<lparr>lookups := lookups w @ [(toHex env (user order), signature order)]\<rparr>)
         (\<lambda>amount_fill'.
            update_order_fills env rest
              (w\<lparr>lookups := lookups w @ [(toHex env (user order), signature order)],
                 orders := snd (UPDATE_ORDER_FILL_STMT
                                  (amount_fill', updated_at, signature order) (orders w))\<rparr>)))"

text \<open>
  The token that \<^verbatim>\<open>process_trade\<close> looks orders up by: \<^verbatim>\<open>tokenGive\<close> unless it is the
  zero address, \<^verbatim>\<open>tokenGet\<close> then.
\<close>

definition coin_addr_of :: "pydict \<Rightarrow> error + pyval" where
  "coin_addr_of a =
     bind_e (getitem a ''tokenGive'') (\<lambda>tg.
       if tg \<noteq> PStr ZERO_ADDR then getitem a ''tokenGive'' else getitem a ''tokenGet'')"

definition RECORDED_MSG :: string where
  "RECORDED_MSG = ''recorded trade txid=%s, logidx=%i''"

definition NO_ORDERS_MSG :: string where
  "NO_ORDERS_MSG =
     ''No orders found for user='' @ [CHR 0x27] @ ''%s'' @ [CHR 0x27] @
     '' and token='' @ [CHR 0x27] @ ''%s'' @ [CHR 0x27]"

text \<open>The branch of \<^verbatim>\<open>process_trade\<close> taken when the trade was inserted.\<close>

definition refresh_after_trade :: "collaborators \<Rightarrow> event \<Rightarrow> world \<Rightarrow> (error + unit) \<times> world" where
  "refresh_after_trade env ev w =
     attempt (coerce_to_int env (logIndex ev)) w (\<lambda>_.
     attempt (coerce_to_int env (blockNumber ev)) (emit INFO RECORDED_MSG w) (\<lambda>block_number.
     attempt (getitem (args ev) ''get'') (emit INFO RECORDED_MSG w) (\<lambda>order_maker.
     attempt (coin_addr_of (args ev)) (emit INFO RECORDED_MSG w) (\<lambda>coin_addr.
     attempt (fetch_affected_orders env order_maker coin_addr block_number w)
       (emit INFO RECORDED_MSG w) (\<lambda>affected_orders.
       if length affected_orders > 0
       then (case update_order_fills env affected_orders
                    (emit DEBUG ''updating up to %i orders for trade txid=%s''
                       (emit INFO RECORDED_MSG w)) of
               (Inl e, w') \<Rightarrow> (Inl e, w')
             | (Inr _, w') \<Rightarrow> (Inr (), emit DEBUG ''done order updates for txid=%s'' w'))
       else (Inr (),
             emit DEBUG ''done order updates for txid=%s''
               (emit WARNING NO_ORDERS_MSG (emit INFO RECORDED_MSG w))))))))"

definition process_trade :: "collaborators \<Rightarrow> event \<Rightarrow> world \<Rightarrow> (error + unit) \<times> world" where
  "process_trade env ev w =
     (case record_trade env ev (emit DEBUG ''received trade txid=%s'' w) of
        (Inl e, w') \<Rightarrow> (Inl e, w')
      | (Inr did_insert, w') \<Rightarrow>
          if did_insert then refresh_after_trade env ev w'
          else (Inr (), emit DEBUG ''duplicate trade txid=%s'' w'))"

section \<open>Recording a cancellation\<close>

text \<open>
  \<^verbatim>\<open>UPSERT_CANCELED_ORDER_STMT\<close>: the row is appended unless a stored row has its
  signature (the constraint \<^verbatim>\<open>index_orders_on_signature\<close>); the row in conflict is
  rewritten from \<open>$10\<close>, \<open>$15\<close> and \<open>$16\<close> when its state is \<open>OPEN\<close>, and left alone
  otherwise. The store reports the rows inserted or rewritten.
\<close>

definition cancel_set :: "order_row \<Rightarrow> order_row \<Rightarrow> order_row" where
  "cancel_set p row = row\<lparr>state := state p, amount_fill := amount_fill p, updated := updated p\<rparr>"

definition UPSERT_CANCELED_ORDER_STMT ::
  "order_row \<Rightarrow> order_row list \<Rightarrow> nat \<times> order_row list" where
  "UPSERT_CANCELED_ORDER_STMT p tbl =
     (if signature p \<in> set (map signature tbl)
      then (length (filter (\<lambda>row. signature row = signature p \<and> state row = OPEN) tbl),
            map (\<lambda>row. if signature row = signature p \<and> state row = OPEN
                       then cancel_set p row else row) tbl)
      else (1, tbl @ [p]))"

text \<open>The classification of the order's provenance in \<^verbatim>\<open>record_cancel\<close>.\<close>

definition cancel_source :: "pydict \<Rightarrow> OrderSource" where
  "cancel_source order =
     (if order ''r'' \<noteq> None \<and> order ''r'' \<noteq> Some PNone then OFFCHAIN else ONCHANIN)"

text \<open>
  \<^verbatim>\<open>record_cancel\<close> up to the tuple \<^verbatim>\<open>upsert_args\<close>: the maker is read, the order is
  hashed, the block's timestamp is fetched, and the tuple is built left to right.
\<close>

definition cancel_upsert_args :: "collaborators \<Rightarrow> event \<Rightarrow> error + pyval order_cols" where
  "cancel_upsert_args env ev =
     bind_e (getitem (args ev) ''user'') (\<lambda>order_maker.
     bind_e (make_order_hash env (args ev)) (\<lambda>sg.
     bind_e (block_timestamp env (blockNumber ev)) (\<lambda>date'.
     bind_e (toBytes_hexstr env sg) (\<lambda>sig_bytes.
     bind_e (hex_item env (args ev) ''tokenGive'') (\<lambda>tg.
     bind_e (getitem (args ev) ''amountGive'') (\<lambda>ag.
     bind_e (hex_item env (args ev) ''tokenGet'') (\<lambda>tt.
     bind_e (getitem (args ev) ''amountGet'') (\<lambda>at.
     bind_e (getitem (args ev) ''expires'') (\<lambda>ex.
     bind_e (getitem (args ev) ''nonce'') (\<lambda>no.
     bind_e (hex_item env (args ev) ''user'') (\<lambda>usr.
     bind_e (bind_e (getitem (args ev) ''v'') (py_int env)) (\<lambda>v'.
     bind_e (bind_e (getitem (args ev) ''r'') toBytes_text) (\<lambda>r'.
     bind_e (bind_e (getitem (args ev) ''s'') toBytes_text) (\<lambda>s'.
     bind_e (getitem (args ev) ''amountGet'') (\<lambda>af.
       Inr \<lparr>source = cancel_source (args ev), signature = sig_bytes,
            token_give = tg, amount_give = ag, token_get = tt, amount_get = at,
            expires = ex, nonce = no, user = usr, state = CANCELED,
            v_col = v', r_col = r', s_col = s', date = date',
            amount_fill = af, updated = date'\<rparr>)))))))))))))))"

definition record_cancel :: "collaborators \<Rightarrow> event \<Rightarrow> world \<Rightarrow> (error + bool) \<times> world" where
  "record_cancel env ev w =
     attempt (cancel_upsert_args env ev) w (\<lambda>upsert_args.
     attempt (encode_order upsert_args) w (\<lambda>params.
       (case UPSERT_CANCELED_ORDER_STMT params (orders w) of (n, tbl) \<Rightarrow>
        (case parse_insert_status (insert_status n) of (_, _, did_upsert) \<Rightarrow>
           (Inr (did_upsert \<noteq> 0),
            (if did_upsert \<noteq> 0
             then emit DEBUG ''recorded order cancel signature=%s'' (w\<lparr>orders := tbl\<rparr>)
             else w\<lparr>orders := tbl\<rparr>))))))"

section \<open>Sample data\<close>

text \<open>
  Concrete collaborators, events and rows on which the theorems below are evaluated.
  The sample decoder keeps a hexadecimal string as it is, the sample chain stamps block
  \<open>n\<close> with \<open>1000 + n\<close> and the latest block with \<open>5000\<close>, and the sample contract
  reports a fill of \<open>100\<close> for every order but the one signed \<open>sigX\<close>, for which the
  call fails.
\<close>

definition sample_env :: collaborators where
  "sample_env =
     \<lparr>coerce_to_int = (\<lambda>x. case x of PInt n \<Rightarrow> Inr n | _ \<Rightarrow> Inl ValueError),
      block_timestamp =
        (\<lambda>x. case x of PInt n \<Rightarrow> Inr (1000 + n)
              | PStr t \<Rightarrow> (if t = ''latest'' then Inr 5000 else Inl ValueError)
              | PNone \<Rightarrow> Inl TypeError),
      make_order_hash = (\<lambda>d. Inr (PStr ''sigC'')),
      toBytes_hexstr = (\<lambda>x. case x of PStr t \<Rightarrow> Inr t | _ \<Rightarrow> Inl TypeError),
      toHex = (\<lambda>b. b),
      orderFills =
        (\<lambda>m sg. if sg = ''sigX'' then Inl (ExternalFailure ''orderFills'') else Inr 100),
      int_of_str = (\<lambda>t. Inl ValueError)\<rparr>"

definition sample_order :: order_row where
  "sample_order =
     \<lparr>source = OFFCHAIN, signature = ''sigO'',
      token_give = ''tokA'', amount_give = 5, token_get = ''tokB'', amount_get = 100,
      expires = 2000, nonce = 1, user = ''maker'', state = OPEN,
      v_col = 27, r_col = ''rr'', s_col = ''ss'', date = 10,
      amount_fill = 0, updated = 10\<rparr>"

definition sample_world :: world where
  "sample_world =
     \<lparr>orders = [sample_order], trades = [], transfers = [], lookups = [], logged = []\<rparr>"

definition sample_trade :: event where
  "sample_trade =
     \<lparr>blockNumber = PInt 7, transactionHash = PStr ''0xabc'', logIndex = PInt 3,
      args = [''tokenGive'' \<mapsto> PStr ''tokA'', ''amountGive'' \<mapsto> PInt 5,
              ''tokenGet'' \<mapsto> PStr ''tokB'', ''amountGet'' \<mapsto> PInt 100,
              ''give'' \<mapsto> PStr ''taker'', ''get'' \<mapsto> PStr ''maker'']\<rparr>"

definition sample_deposit :: event where
  "sample_deposit =
     \<lparr>blockNumber = PInt 8, transactionHash = PStr ''0xdef'', logIndex = PInt 0,
      args = [''token'' \<mapsto> PStr ''tokA'', ''user'' \<mapsto> PStr ''maker'',
              ''amount'' \<mapsto> PInt 40, ''balance'' \<mapsto> PInt 90]\<rparr>"

definition cancel_terms :: pydict where
  "cancel_terms =
     [''tokenGive'' \<mapsto> PStr ''tokA'', ''amountGive'' \<mapsto> PInt 5,
      ''tokenGet'' \<mapsto> PStr ''tokB'', ''amountGet'' \<mapsto> PInt 100,
      ''expires'' \<mapsto> PInt 2000, ''nonce'' \<mapsto> PInt 1, ''user'' \<mapsto> PStr ''maker'',
      ''v'' \<mapsto> PInt 27, ''s'' \<mapsto> PStr ''ss'']"

definition sample_cancel :: event where
  "sample_cancel =
     \<lparr>blockNumber = PInt 9, transactionHash = PStr ''0x123'', logIndex = PInt 1,
      args = cancel_terms(''r'' \<mapsto> PStr ''rr'')\<rparr>"

definition sample_cancel_onchain :: event where
  "sample_cancel_onchain =
     \<lparr>blockNumber = PInt 9, transactionHash = PStr ''0x123'', logIndex = PInt 1,
      args = cancel_terms\<rparr>"

definition sample_filled :: order_row where
  "sample_filled = sample_order\<lparr>state := FILLED, amount_fill := 100\<rparr>"

definition sample_cancel_params :: order_row where
  "sample_cancel_params =
     \<lparr>source = OFFCHAIN, signature = ''sigC'',
      token_give = ''tokA'', amount_give = 5, token_get = ''tokB'', amount_get = 100,
      expires = 2000, nonce = 1, user = ''maker'', state = CANCELED,
      v_col = 27, r_col = ''rr'', s_col = ''ss'', date = 1009,
      amount_fill = 100, updated = 1009\<rparr>"

definition sample_trade_row :: "int trade_cols" where
  "sample_trade_row =
     \<lparr>trade_block_number = 7, trade_transaction_hash = ''0xabc'', trade_log_index = 3,
      trade_token_give = ''tokA'', trade_amount_give = 5,
      trade_token_get = ''tokB'', trade_amount_get = 100,
      trade_addr_give = ''taker'', trade_addr_get = ''maker'', trade_date = 1007\<rparr>"

definition sample_deposit_row :: "int transfer_cols" where
  "sample_deposit_row =
     \<lparr>transfer_block_number = 8, transfer_transaction_hash = ''0xdef'',
      transfer_log_index = 0, transfer_direction = ''DEPOSIT'',
      transfer_token = ''tokA'', transfer_user = ''maker'',
      transfer_amount = 40, transfer_balance_after = 90, transfer_date = 1008\<rparr>"

definition sample_trade_native :: event where
  "sample_trade_native =
     sample_trade\<lparr>args := (args sample_trade)
                    (''tokenGive'' \<mapsto> PStr ZERO_ADDR, ''tokenGet'' \<mapsto> PStr ''tokZ'')\<rparr>"

section \<open>Auxiliary lemmas\<close>

lemma UPDATE_length [simp]: "length (snd (UPDATE_ORDER_FILL_STMT p tbl)) = length tbl"
  by (cases p) (simp add: UPDATE_ORDER_FILL_STMT_def)

lemma UPDATE_nth:
  "i < length tbl \<Longrightarrow>
   snd (UPDATE_ORDER_FILL_STMT (p1, p2, p3) tbl) ! i =
     (if signature (tbl ! i) = p3 then fill_set p1 p2 (tbl ! i) else tbl ! i)"
  by (simp add: UPDATE_ORDER_FILL_STMT_def)

lemma UPDATE_no_match:
  "p3 \<notin> signature ` set tbl \<Longrightarrow> UPDATE_ORDER_FILL_STMT (p1, p2, p3) tbl = (0, tbl)"
proof -
  assume a: "p3 \<notin> signature ` set tbl"
  then have "\<forall>row \<in> set tbl. signature row \<noteq> p3" by auto
  then have f: "filter (\<lambda>row. signature row = p3) tbl = []"
    and m: "map (\<lambda>row. if signature row = p3 then fill_set p1 p2 row else row) tbl = tbl"
    by (simp_all add: filter_empty_conv map_idI)
  show ?thesis by (simp add: UPDATE_ORDER_FILL_STMT_def f m)
qed

lemma fold_fill_length [simp]:
  "length (fold (\<lambda>c tbl. snd (UPDATE_ORDER_FILL_STMT (fst c, snd c, sg) tbl)) cs tbl) = length tbl"
  by (induction cs arbitrary: tbl) simp_all

lemma fold_fill_amount:
  "i < length tbl \<Longrightarrow> signature (tbl ! i) = sg \<Longrightarrow>
   amount_fill ((fold (\<lambda>c tbl. snd (UPDATE_ORDER_FILL_STMT (fst c, snd c, sg) tbl)) cs tbl) ! i) =
     fold max (map fst cs) (amount_fill (tbl ! i))"
proof (induction cs arbitrary: tbl)
  case Nil
  then show ?case by simp
next
  case (Cons c cs)
  let ?t = "snd (UPDATE_ORDER_FILL_STMT (fst c, snd c, sg) tbl)"
  have l: "i < length ?t" using Cons.prems by simp
  have s: "signature (?t ! i) = sg" using Cons.prems by (simp add: UPDATE_nth fill_set_def)
  have a: "amount_fill (?t ! i) = max (amount_fill (tbl ! i)) (fst c)"
    using Cons.prems by (simp add: UPDATE_nth fill_set_def)
  show ?case using Cons.IH [OF l s] by (simp add: a max.commute)
qed

lemma fold_max_Max: "fold max xs (a::int) = Max (insert a (set xs))"
proof (induction xs arbitrary: a)
  case Nil
  then show ?case by simp
next
  case (Cons x xs)
  have "Max (insert (max x a) (set xs)) = Max (insert a (insert x (set xs)))"
    by (cases "set xs = {}") (simp_all add: max.commute max.left_commute max.assoc)
  then show ?case using Cons by simp
qed

lemma UPSERT_nth:
  "i < length tbl \<Longrightarrow>
   snd (UPSERT_CANCELED_ORDER_STMT p tbl) ! i =
     (if signature (tbl ! i) = signature p \<and> state (tbl ! i) = OPEN
      then cancel_set p (tbl ! i) else tbl ! i)"
proof -
  assume i: "i < length tbl"
  then have "tbl ! i \<in> set tbl" by simp
  then have "signature (tbl ! i) = signature p \<Longrightarrow> signature p \<in> signature ` set tbl"
    by (metis imageI)
  then show ?thesis using i
    by (auto simp add: UPSERT_CANCELED_ORDER_STMT_def nth_append)
qed

lemma attempt_cases:
  "attempt m w f = (case m of Inl e \<Rightarrow> (Inl e, w) | Inr x \<Rightarrow> f x)"
  by (cases m) simp_all

lemma record_cancel_raise_args:
  "cancel_upsert_args env ev = Inl e \<Longrightarrow> record_cancel env ev w = (Inl e, w)"
  by (simp add: record_cancel_def)

lemma record_cancel_raise_encode:
  "cancel_upsert_args env ev = Inr a \<Longrightarrow> encode_order a = Inl e \<Longrightarrow>
   record_cancel env ev w = (Inl e, w)"
  by (simp add: record_cancel_def)

lemma record_cancel_store:
  "cancel_upsert_args env ev = Inr a \<Longrightarrow> encode_order a = Inr p \<Longrightarrow>
   record_cancel env ev w =
     (Inr (fst (UPSERT_CANCELED_ORDER_STMT p (orders w)) \<noteq> 0),
      (if fst (UPSERT_CANCELED_ORDER_STMT p (orders w)) \<noteq> 0
       then emit DEBUG ''recorded order cancel signature=%s''
              (w\<lparr>orders := snd (UPSERT_CANCELED_ORDER_STMT p (orders w))\<rparr>)
       else w\<lparr>orders := snd (UPSERT_CANCELED_ORDER_STMT p (orders w))\<rparr>))"
  by (simp add: record_cancel_def parse_insert_status_def insert_status_def
      split: prod.splits)

lemma record_cancel_orders:
  "orders (snd (record_cancel env ev w)) = orders w
   \<or> (\<exists>p. orders (snd (record_cancel env ev w)) = snd (UPSERT_CANCELED_ORDER_STMT p (orders w)))"
proof (cases "cancel_upsert_args env ev")
  case (Inl e)
  then show ?thesis by (simp add: record_cancel_raise_args)
next
  case a: (Inr a)
  show ?thesis
  proof (cases "encode_order a")
    case (Inl e)
    then show ?thesis using a by (simp add: record_cancel_raise_encode)
  next
    case (Inr p)
    have "orders (snd (record_cancel env ev w)) = snd (UPSERT_CANCELED_ORDER_STMT p (orders w))"
      by (simp add: record_cancel_store [OF a Inr] emit_def)
    then show ?thesis by blast
  qed
qed

lemma update_order_fills_length [simp]:
  "length (orders (snd (update_order_fills env os w))) = length (orders w)"
  by (induction os arbitrary: w) (simp_all add: attempt_cases split: sum.splits)

lemma update_order_fills_terminal:
  "i < length (orders w) \<Longrightarrow> state (orders w ! i) = FILLED \<or> state (orders w ! i) = CANCELED \<Longrightarrow>
   state (orders (snd (update_order_fills env os w)) ! i) = state (orders w ! i)"
proof (induction os arbitrary: w)
  case Nil
  then show ?case by simp
next
  case (Cons order rest)
  show ?case
  proof (cases "block_timestamp env (PStr ''latest'')")
    case (Inl e)
    then show ?thesis by simp
  next
    case ts: (Inr updated_at)
    show ?thesis
    proof (cases "orderFills env (toHex env (user order)) (signature order)")
      case (Inl e)
      then show ?thesis using ts by simp
    next
      case (Inr amt)
      let ?w = "w\<lparr>lookups := lookups w @ [(toHex env (user order), signature order)],
                 orders := snd (UPDATE_ORDER_FILL_STMT (amt, updated_at, signature order) (orders w))\<rparr>"
      have l: "i < length (orders ?w)" using Cons.prems by simp
      have s: "state (orders ?w ! i) = state (orders w ! i)"
        using Cons.prems by (auto simp add: UPDATE_nth fill_set_def)
      have "state (orders (snd (update_order_fills env rest ?w)) ! i) = state (orders ?w ! i)"
        using Cons.IH [OF l] Cons.prems(2) s by simp
      then show ?thesis using ts Inr s by simp
    qed
  qed
qed

lemma update_order_fills_amount_mono:
  "i < length (orders w) \<Longrightarrow>
   amount_fill (orders w ! i) \<le> amount_fill (orders (snd (update_order_fills env os w)) ! i)"
proof (induction os arbitrary: w)
  case Nil
  then show ?case by simp
next
  case (Cons order rest)
  show ?case
  proof (cases "block_timestamp env (PStr ''latest'')")
    case (Inl e)
    then show ?thesis by simp
  next
    case ts: (Inr updated_at)
    show ?thesis
    proof (cases "orderFills env (toHex env (user order)) (signature order)")
      case (Inl e)
      then show ?thesis using ts by simp
    next
      case (Inr amt)
      let ?w = "w\<lparr>lookups := lookups w @ [(toHex env (user order), signature order)],
                 orders := snd (UPDATE_ORDER_FILL_STMT (amt, updated_at, signature order) (orders w))\<rparr>"
      have l: "i < length (orders ?w)" using Cons.prems by simp
      have s: "amount_fill (orders w ! i) \<le> amount_fill (orders ?w ! i)"
        using Cons.prems by (auto simp add: UPDATE_nth fill_set_def)
      have "amount_fill (orders ?w ! i) \<le> amount_fill (orders (snd (update_order_fills env rest ?w)) ! i)"
        using Cons.IH [OF l] by simp
      then show ?thesis using ts Inr s by simp
    qed
  qed
qed

lemma bind_e_Inr: "bind_e m f = Inr y \<longleftrightarrow> (\<exists>x. m = Inr x \<and> f x = Inr y)"
  by (cases m) simp_all

lemma cancel_upsert_args_needs_r:
  assumes "cancel_upsert_args env ev = Inr a"
  shows "\<exists>t. args ev ''r'' = Some (PStr t)"
proof -
  from assms obtain r' where "bind_e (getitem (args ev) ''r'') toBytes_text = Inr r'"
    unfolding cancel_upsert_args_def bind_e_Inr by blast
  then obtain x where x: "getitem (args ev) ''r'' = Inr x" and t: "toBytes_text x = Inr r'"
    unfolding bind_e_Inr by blast
  from x have "args ev ''r'' = Some x" by (simp add: getitem_def split: option.splits)
  moreover from t have "x = PStr r'" by (cases x) simp_all
  ultimately show ?thesis by blast
qed

lemma cancel_upsert_args_source:
  assumes "cancel_upsert_args env ev = Inr a"
  shows "source a = cancel_source (args ev)"
  using assms unfolding cancel_upsert_args_def bind_e_Inr by auto

lemma cancel_upsert_args_raises:
  assumes "args ev ''r'' = None \<or> args ev ''r'' = Some PNone"
  shows "\<exists>e. cancel_upsert_args env ev = Inl e"
proof (cases "cancel_upsert_args env ev")
  case (Inl e)
  then show ?thesis by blast
next
  case (Inr a)
  then obtain t where "args ev ''r'' = Some (PStr t)"
    using cancel_upsert_args_needs_r by blast
  with assms show ?thesis by auto
qed

lemma cancel_upsert_args_at_v_or_r:
  assumes "getitem (args ev) ''user'' = Inr um"
    and "make_order_hash env (args ev) = Inr sg"
    and "block_timestamp env (blockNumber ev) = Inr d"
    and "toBytes_hexstr env sg = Inr sb"
    and "hex_item env (args ev) ''tokenGive'' = Inr tg"
    and "getitem (args ev) ''amountGive'' = Inr ag"
    and "hex_item env (args ev) ''tokenGet'' = Inr tt"
    and "getitem (args ev) ''amountGet'' = Inr at"
    and "getitem (args ev) ''expires'' = Inr ex"
    and "getitem (args ev) ''nonce'' = Inr no"
    and "hex_item env (args ev) ''user'' = Inr ub"
    and "args ev ''r'' = None \<or> args ev ''r'' = Some PNone"
  shows "cancel_upsert_args env ev =
     (case bind_e (getitem (args ev) ''v'') (py_int env) of
        Inl e \<Rightarrow> Inl e
      | Inr _ \<Rightarrow> Inl (if args ev ''r'' = None then KeyError ''r'' else TypeError))"
proof -
  have r: "bind_e (getitem (args ev) ''r'') toBytes_text =
      Inl (if args ev ''r'' = None then KeyError ''r'' else TypeError)"
    using assms(12) by (auto simp add: getitem_def)
  show ?thesis
    unfolding cancel_upsert_args_def
    by (simp add: assms(1-11) r split: sum.splits)
qed

lemma db_numeric_Inr: "db_numeric x = Inr n \<longleftrightarrow> x = PInt n"
  by (cases x) auto

lemma cancel_params_terms:
  assumes a: "cancel_upsert_args env ev = Inr a" and p: "encode_order a = Inr p"
  shows "state p = CANCELED \<and> amount_fill p = amount_get p \<and> updated p = date p
     \<and> source p = cancel_source (args ev)
     \<and> bind_e (make_order_hash env (args ev)) (toBytes_hexstr env) = Inr (signature p)
     \<and> hex_item env (args ev) ''tokenGive'' = Inr (token_give p)
     \<and> getitem (args ev) ''amountGive'' = Inr (PInt (amount_give p))
     \<and> hex_item env (args ev) ''tokenGet'' = Inr (token_get p)
     \<and> getitem (args ev) ''amountGet'' = Inr (PInt (amount_get p))
     \<and> getitem (args ev) ''expires'' = Inr (PInt (expires p))
     \<and> getitem (args ev) ''nonce'' = Inr (PInt (nonce p))
     \<and> hex_item env (args ev) ''user'' = Inr (user p)
     \<and> bind_e (getitem (args ev) ''v'') (py_int env) = Inr (v_col p)
     \<and> bind_e (getitem (args ev) ''r'') toBytes_text = Inr (r_col p)
     \<and> bind_e (getitem (args ev) ''s'') toBytes_text = Inr (s_col p)
     \<and> block_timestamp env (blockNumber ev) = Inr (date p)"
proof -
  from a obtain sg d sb tg ag tt at ex no ub v' r' s' af where
    f: "make_order_hash env (args ev) = Inr sg" "block_timestamp env (blockNumber ev) = Inr d"
      "toBytes_hexstr env sg = Inr sb" "hex_item env (args ev) ''tokenGive'' = Inr tg"
      "getitem (args ev) ''amountGive'' = Inr ag" "hex_item env (args ev) ''tokenGet'' = Inr tt"
      "getitem (args ev) ''amountGet'' = Inr at" "getitem (args ev) ''expires'' = Inr ex"
      "getitem (args ev) ''nonce'' = Inr no" "hex_item env (args ev) ''user'' = Inr ub"
      "bind_e (getitem (args ev) ''v'') (py_int env) = Inr v'"
      "bind_e (getitem (args ev) ''r'') toBytes_text = Inr r'"
      "bind_e (getitem (args ev) ''s'') toBytes_text = Inr s'"
      "getitem (args ev) ''amountGet'' = Inr af"
    and a': "a = \<lparr>source = cancel_source (args ev), signature = sb,
            token_give = tg, amount_give = ag, token_get = tt, amount_get = at,
            expires = ex, nonce = no, user = ub, state = CANCELED,
            v_col = v', r_col = r', s_col = s', date = d,
            amount_fill = af, updated = d\<rparr>"
    unfolding cancel_upsert_args_def bind_e_Inr by blast
  from f(7) f(14) have af: "af = at" by simp
  from p obtain ag' at' ex' no' af' where
    n: "ag = PInt ag'" "at = PInt at'" "ex = PInt ex'" "no = PInt no'" "af = PInt af'"
    and p': "p = \<lparr>source = cancel_source (args ev), signature = sb,
            token_give = tg, amount_give = ag', token_get = tt, amount_get = at',
            expires = ex', nonce = no', user = ub, state = CANCELED,
            v_col = v', r_col = r', s_col = s', date = d,
            amount_fill = af', updated = d\<rparr>"
    unfolding encode_order_def bind_e_Inr db_numeric_Inr a' by auto
  from n af have "af' = at'" by simp
  then show ?thesis using f n p' by simp
qed

lemma UPSERT_insert:
  "signature p \<notin> signature ` set tbl \<Longrightarrow> UPSERT_CANCELED_ORDER_STMT p tbl = (1, tbl @ [p])"
  by (simp add: UPSERT_CANCELED_ORDER_STMT_def)

lemma UPSERT_terminal:
  assumes "signature p \<in> signature ` set tbl"
    and "\<forall>row \<in> set tbl. signature row = signature p \<longrightarrow> state row \<noteq> OPEN"
  shows "UPSERT_CANCELED_ORDER_STMT p tbl = (0, tbl)"
proof -
  have f: "filter (\<lambda>row. signature row = signature p \<and> state row = OPEN) tbl = []"
    using assms(2) by (auto simp add: filter_empty_conv)
  have m: "map (\<lambda>row. if signature row = signature p \<and> state row = OPEN
                       then cancel_set p row else row) tbl = tbl"
  proof (rule map_idI)
    fix row
    assume "row \<in> set tbl"
    with assms(2) show "(if signature row = signature p \<and> state row = OPEN
        then cancel_set p row else row) = row"
      by auto
  qed
  show ?thesis using assms(1) by (simp add: UPSERT_CANCELED_ORDER_STMT_def f m)
qed

lemma UPSERT_open_count:
  assumes "i < length tbl" "signature (tbl ! i) = signature p" "state (tbl ! i) = OPEN"
  shows "fst (UPSERT_CANCELED_ORDER_STMT p tbl) \<noteq> 0"
proof -
  have m: "tbl ! i \<in> set tbl" using assms(1) by simp
  then have "signature p \<in> signature ` set tbl" using assms(2) by (metis imageI)
  moreover have "filter (\<lambda>row. signature row = signature p \<and> state row = OPEN) tbl \<noteq> []"
    using m assms(2,3) by (auto simp add: filter_empty_conv)
  ultimately show ?thesis by (simp add: UPSERT_CANCELED_ORDER_STMT_def)
qed



lemma emit_fields [simp]:
  "orders (emit lv msg w) = orders w" "trades (emit lv msg w) = trades w"
  "transfers (emit lv msg w) = transfers w" "lookups (emit lv msg w) = lookups w"
  "logged (emit lv msg w) = logged w @ [(lv, msg)]"
  by (simp_all add: emit_def)

lemma record_trade_raise_args:
  "trade_insert_args env ev = Inl e \<Longrightarrow> record_trade env ev w = (Inl e, w)"
  by (simp add: record_trade_def)

lemma record_trade_raise_encode:
  "trade_insert_args env ev = Inr ia \<Longrightarrow> encode_trade ia = Inl e \<Longrightarrow>
   record_trade env ev w = (Inl e, w)"
  by (simp add: record_trade_def)

lemma record_trade_store:
  "trade_insert_args env ev = Inr ia \<Longrightarrow> encode_trade ia = Inr p \<Longrightarrow>
   record_trade env ev w =
     (if trade_key p \<in> trade_key ` set (trades w) then (Inr False, w)
      else (Inr True, emit DEBUG ''recorded trade txid=%s, logidx=%i''
                        (w\<lparr>trades := trades w @ [p]\<rparr>)))"
  by (simp add: record_trade_def INSERT_TRADE_STMT_def parse_insert_status_def
      insert_status_def)

lemma record_transfer_store:
  "transfer_insert_args env dir ev = Inr ia \<Longrightarrow> encode_transfer ia = Inr q \<Longrightarrow>
   record_transfer env dir ev w =
     (if transfer_key q \<in> transfer_key ` set (transfers w) then (Inr False, w)
      else (Inr True, w\<lparr>transfers := transfers w @ [q]\<rparr>))"
  by (simp add: record_transfer_def INSERT_TRANSFER_STMT_def parse_insert_status_def
      insert_status_def)

lemma update_order_fills_frame:
  "trades (snd (update_order_fills env os w)) = trades w
   \<and> transfers (snd (update_order_fills env os w)) = transfers w"
  by (induction os arbitrary: w) (simp_all add: attempt_cases split: sum.splits)

lemma refresh_after_trade_frame:
  "trades (snd (refresh_after_trade env ev w)) = trades w
   \<and> transfers (snd (refresh_after_trade env ev w)) = transfers w"
proof -
  have u: "trades (snd (case update_order_fills env os w' of
               (Inl e, w'') \<Rightarrow> (Inl e, w'')
             | (Inr _, w'') \<Rightarrow> (Inr (), emit lv msg w''))) = trades w'
      \<and> transfers (snd (case update_order_fills env os w' of
               (Inl e, w'') \<Rightarrow> (Inl e, w'')
             | (Inr _, w'') \<Rightarrow> (Inr (), emit lv msg w''))) = transfers w'" for os w' lv msg
    using update_order_fills_frame [of env os w']
    by (cases "update_order_fills env os w'") (auto split: sum.splits)
  show ?thesis
    unfolding refresh_after_trade_def
    by (simp add: attempt_cases u split: sum.splits)
qed

lemma process_trade_duplicate:
  assumes "trade_insert_args env ev = Inr ia" "encode_trade ia = Inr p"
    and "trade_key p \<in> trade_key ` set (trades w)"
  shows "process_trade env ev w =
     (Inr (), emit DEBUG ''duplicate trade txid=%s'' (emit DEBUG ''received trade txid=%s'' w))"
  using assms by (simp add: process_trade_def record_trade_store [OF assms(1,2)])

lemma process_trade_records:
  assumes "trade_insert_args env ev = Inr ia" "encode_trade ia = Inr p"
  shows "trade_key p \<in> trade_key ` set (trades (snd (process_trade env ev w)))"
proof (cases "trade_key p \<in> trade_key ` set (trades w)")
  case True
  then show ?thesis by (simp add: process_trade_duplicate [OF assms])
next
  case False
  then show ?thesis
    by (simp add: process_trade_def record_trade_store [OF assms] refresh_after_trade_frame)
qed

lemma process_trade_raise:
  assumes "fst (record_trade env ev (emit DEBUG ''received trade txid=%s'' w)) = Inl e"
  shows "process_trade env ev w = (Inl e, emit DEBUG ''received trade txid=%s'' w)"
proof (cases "trade_insert_args env ev")
  case (Inl e')
  then show ?thesis using assms by (simp add: process_trade_def record_trade_raise_args)
next
  case ia: (Inr ia)
  show ?thesis
  proof (cases "encode_trade ia")
    case (Inl e')
    then show ?thesis using assms ia by (simp add: process_trade_def record_trade_raise_encode)
  next
    case (Inr p)
    then show ?thesis using assms ia by (simp add: record_trade_store split: if_splits)
  qed
qed

lemma process_trade_twice:
  "orders (snd (process_trade env ev (snd (process_trade env ev w))))
     = orders (snd (process_trade env ev w))
   \<and> trades (snd (process_trade env ev (snd (process_trade env ev w))))
     = trades (snd (process_trade env ev w))
   \<and> lookups (snd (process_trade env ev (snd (process_trade env ev w))))
     = lookups (snd (process_trade env ev w))"
proof (cases "trade_insert_args env ev")
  case (Inl e)
  have "process_trade env ev w' = (Inl e, emit DEBUG ''received trade txid=%s'' w')" for w'
    by (rule process_trade_raise) (simp add: record_trade_raise_args [OF Inl])
  then show ?thesis by simp
next
  case ia: (Inr ia)
  show ?thesis
  proof (cases "encode_trade ia")
    case (Inl e)
    have "process_trade env ev w' = (Inl e, emit DEBUG ''received trade txid=%s'' w')" for w'
      by (rule process_trade_raise) (simp add: record_trade_raise_encode [OF ia Inl])
    then show ?thesis by simp
  next
    case (Inr p)
    show ?thesis
      by (simp add: process_trade_duplicate [OF ia Inr process_trade_records [OF ia Inr]])
  qed
qed

lemma trade_insert_args_key:
  assumes "trade_insert_args env ev = Inr ia" "encode_trade ia = Inr p"
  shows "toBytes_hexstr env (transactionHash ev) = Inr (fst (trade_key p))
     \<and> coerce_to_int env (logIndex ev) = Inr (snd (trade_key p))"
proof -
  from assms(1) obtain bn li d tx tg ag tt at gv gt where
    f: "coerce_to_int env (logIndex ev) = Inr li" "toBytes_hexstr env (transactionHash ev) = Inr tx"
    and ia: "ia = \<lparr>trade_block_number = bn, trade_transaction_hash = tx,
            trade_log_index = li,
            trade_token_give = tg, trade_amount_give = ag,
            trade_token_get = tt, trade_amount_get = at,
            trade_addr_give = gv, trade_addr_get = gt,
            trade_date = d\<rparr>"
    unfolding trade_insert_args_def bind_e_Inr by blast
  from assms(2) have "trade_key p = (tx, li)"
    unfolding encode_trade_def bind_e_Inr ia by (auto simp add: trade_key_def)
  then show ?thesis using f by simp
qed

lemma transfer_insert_args_key:
  assumes "transfer_insert_args env dir ev = Inr ta" "encode_transfer ta = Inr q"
  shows "toBytes_hexstr env (transactionHash ev) = Inr (fst (transfer_key q))
     \<and> coerce_to_int env (logIndex ev) = Inr (snd (transfer_key q))"
proof -
  from assms(1) obtain bn li d tx tk us am ba where
    f: "coerce_to_int env (logIndex ev) = Inr li" "toBytes_hexstr env (transactionHash ev) = Inr tx"
    and ta: "ta = \<lparr>transfer_block_number = bn, transfer_transaction_hash = tx,
            transfer_log_index = li, transfer_direction = dir,
            transfer_token = tk, transfer_user = us,
            transfer_amount = am, transfer_balance_after = ba,
            transfer_date = d\<rparr>"
    unfolding transfer_insert_args_def bind_e_Inr by blast
  from assms(2) have "transfer_key q = (tx, li)"
    unfolding encode_transfer_def bind_e_Inr ta by (auto simp add: transfer_key_def)
  then show ?thesis using f by simp
qed

lemma filter_new_key:
  assumes "f p \<notin> f ` set tbl"
  shows "filter (\<lambda>row. f row = f p) (tbl @ [p]) = [p]"
proof -
  have "filter (\<lambda>row. f row = f p) tbl = []"
    using assms by (metis (mono_tags, lifting) filter_False imageI)
  then show ?thesis by simp
qed

lemma log_transfer_store:
  assumes "transfer_insert_args env dir ev = Inr ta" "encode_transfer ta = Inr q"
  shows "log_transfer env msg ev (record_transfer env dir ev w) =
     (if transfer_key q \<in> transfer_key ` set (transfers w) then (Inr False, w)
      else (Inr True, emit INFO msg (w\<lparr>transfers := transfers w @ [q]\<rparr>)))"
  using transfer_insert_args_key [OF assms]
  by (simp add: log_transfer_def record_transfer_store [OF assms])

lemma record_trade_True:
  assumes "record_trade env ev w0 = (Inr True, w1)"
  shows "\<exists>ia p. trade_insert_args env ev = Inr ia \<and> encode_trade ia = Inr p
     \<and> w1 = emit DEBUG ''recorded trade txid=%s, logidx=%i'' (w0\<lparr>trades := trades w0 @ [p]\<rparr>)"
proof (cases "trade_insert_args env ev")
  case (Inl e)
  then show ?thesis using assms by (simp add: record_trade_raise_args)
next
  case ia: (Inr ia)
  show ?thesis
  proof (cases "encode_trade ia")
    case (Inl e)
    then show ?thesis using assms ia by (simp add: record_trade_raise_encode)
  next
    case (Inr p)
    then show ?thesis using assms ia
      by (auto simp add: record_trade_store split: if_splits)
  qed
qed

lemma coin_addr_of_eq:
  "a ''tokenGive'' = Some tg \<Longrightarrow> a ''tokenGet'' = Some tt \<Longrightarrow>
   coin_addr_of a = Inr (if tg = PStr ZERO_ADDR then tt else tg)"
  by (simp add: coin_addr_of_def getitem_def)




text \<open>
  \<open>record_cancel\<close> on an event whose upsert arguments are built and accepted by the
  store, with the parameters \<open>p\<close>: the three cases of the upsert.
\<close>

lemma record_cancel_signed:
  "cancel_upsert_args env ev = Inr a \<Longrightarrow> encode_order a = Inr p \<Longrightarrow>
     state p = CANCELED \<and> amount_fill p = amount_get p
     \<and> getitem (args ev) ''amountGet'' = Inr (PInt (amount_get p))
     \<and> (signature p \<notin> signature ` set (orders w) \<longrightarrow>
          record_cancel env ev w =
            (Inr True, emit DEBUG ''recorded order cancel signature=%s''
                         (w\<lparr>orders := orders w @ [p]\<rparr>)))
     \<and> (\<forall>i < length (orders w).
          signature (orders w ! i) = signature p \<longrightarrow> state (orders w ! i) = OPEN \<longrightarrow>
            fst (record_cancel env ev w) = Inr True
            \<and> orders (snd (record_cancel env ev w)) ! i =
                (orders w ! i)\<lparr>state := CANCELED, amount_fill := amount_get p,
                                updated := date p\<rparr>)
     \<and> (signature p \<in> signature ` set (orders w) \<longrightarrow>
        (\<forall>row \<in> set (orders w). signature row = signature p \<longrightarrow>
            state row = FILLED \<or> state row = CANCELED) \<longrightarrow>
          record_cancel env ev w = (Inr False, w))"
proof -
  assume a: "cancel_upsert_args env ev = Inr a" and p: "encode_order a = Inr p"
  note t = cancel_params_terms [OF a p]
  note rc = record_cancel_store [OF a p, of w]
  have 1: "record_cancel env ev w =
            (Inr True, emit DEBUG ''recorded order cancel signature=%s''
                         (w\<lparr>orders := orders w @ [p]\<rparr>))"
    if "signature p \<notin> signature ` set (orders w)"
    using rc by (simp add: UPSERT_insert [OF that])
  have 2: "fst (record_cancel env ev w) = Inr True
            \<and> orders (snd (record_cancel env ev w)) ! i =
                (orders w ! i)\<lparr>state := CANCELED, amount_fill := amount_get p,
                                updated := date p\<rparr>"
    if "i < length (orders w)" "signature (orders w ! i) = signature p"
      "state (orders w ! i) = OPEN" for i
  proof -
    have c: "fst (UPSERT_CANCELED_ORDER_STMT p (orders w)) \<noteq> 0"
      using that by (rule UPSERT_open_count)
    have "snd (UPSERT_CANCELED_ORDER_STMT p (orders w)) ! i = cancel_set p (orders w ! i)"
      using that by (simp add: UPSERT_nth)
    then show ?thesis using rc c t by (simp add: emit_def cancel_set_def)
  qed
  have 3: "record_cancel env ev w = (Inr False, w)"
    if "signature p \<in> signature ` set (orders w)"
      "\<forall>row \<in> set (orders w). signature row = signature p \<longrightarrow>
            state row = FILLED \<or> state row = CANCELED"
  proof -
    have "\<forall>row \<in> set (orders w). signature row = signature p \<longrightarrow> state row \<noteq> OPEN"
      using that(2) by auto
    then have "UPSERT_CANCELED_ORDER_STMT p (orders w) = (0, orders w)"
      using that(1) by (simp add: UPSERT_terminal)
    then show ?thesis using rc by simp
  qed
  show ?thesis using t 1 2 3 by blast
qed

lemma record_cancel_signed_example:
  "record_cancel sample_env sample_cancel sample_world =
     (Inr True, emit DEBUG ''recorded order cancel signature=%s''
                  (sample_world\<lparr>orders := [sample_order, sample_cancel_params]\<rparr>))
   \<and> state sample_cancel_params = CANCELED
   \<and> amount_fill sample_cancel_params = 100
   \<and> fst (record_cancel sample_env sample_cancel
            (sample_world\<lparr>orders := [sample_order\<lparr>signature := ''sigC''\<rparr>]\<rparr>)) = Inr True
   \<and> orders (snd (record_cancel sample_env sample_cancel
                     (sample_world\<lparr>orders := [sample_order\<lparr>signature := ''sigC''\<rparr>]\<rparr>))) ! 0 =
       sample_order\<lparr>signature := ''sigC'', state := CANCELED, amount_fill := 100,
                    updated := 1009\<rparr>
   \<and> record_cancel sample_env sample_cancel
         (sample_world\<lparr>orders := [sample_filled\<lparr>signature := ''sigC''\<rparr>]\<rparr>) =
       (Inr False, sample_world\<lparr>orders := [sample_filled\<lparr>signature := ''sigC''\<rparr>]\<rparr>)"
proof -
  let ?w2 = "sample_world\<lparr>orders := [sample_order\<lparr>signature := ''sigC''\<rparr>]\<rparr>"
  let ?w3 = "sample_world\<lparr>orders := [sample_filled\<lparr>signature := ''sigC''\<rparr>]\<rparr>"
  obtain a where a: "cancel_upsert_args sample_env sample_cancel = Inr a"
    and p: "encode_order a = Inr sample_cancel_params"
    by (simp add: cancel_upsert_args_def sample_env_def sample_cancel_def cancel_terms_def
        getitem_def hex_item_def encode_order_def sample_cancel_params_def cancel_source_def)
  have s1: "signature sample_cancel_params \<notin> signature ` set (orders sample_world)"
    by (simp add: sample_cancel_params_def sample_world_def sample_order_def)
  have 1: "record_cancel sample_env sample_cancel sample_world =
     (Inr True, emit DEBUG ''recorded order cancel signature=%s''
                  (sample_world\<lparr>orders := [sample_order, sample_cancel_params]\<rparr>))"
    using record_cancel_signed [OF a p, where w = sample_world] s1
    by (simp add: sample_world_def)
  have 0: "state sample_cancel_params = CANCELED \<and> amount_fill sample_cancel_params = 100"
    using record_cancel_signed [OF a p, where w = sample_world]
    by (simp add: sample_cancel_params_def)
  have s2: "0 < length (orders ?w2)" "signature (orders ?w2 ! 0) = signature sample_cancel_params"
    "state (orders ?w2 ! 0) = OPEN"
    by (simp_all add: sample_cancel_params_def sample_order_def)
  have 2: "fst (record_cancel sample_env sample_cancel ?w2) = Inr True
     \<and> orders (snd (record_cancel sample_env sample_cancel ?w2)) ! 0 =
       sample_order\<lparr>signature := ''sigC'', state := CANCELED, amount_fill := 100,
                    updated := 1009\<rparr>"
    using record_cancel_signed [OF a p, where w = ?w2] s2
    by (simp add: sample_cancel_params_def)
  have s3: "signature sample_cancel_params \<in> signature ` set (orders ?w3)"
    "\<forall>row \<in> set (orders ?w3). signature row = signature sample_cancel_params \<longrightarrow>
            state row = FILLED \<or> state row = CANCELED"
    by (simp_all add: sample_cancel_params_def sample_filled_def sample_order_def)
  have 3: "record_cancel sample_env sample_cancel ?w3 = (Inr False, ?w3)"
    using record_cancel_signed [OF a p, where w = ?w3] s3
    by blast
  show ?thesis using 0 1 2 3 by simp
qed

section \<open>Properties of the handlers\<close>

subsection \<open>Terminal states\<close>

text \<open>
  Claim C1, as amended. For every stored order whose status is FILLED or CANCELED: the
  fill update keeps the status and sets the filled amount to the larger of the stored
  and the new amount when the signature matches (and keeps it otherwise), so the amount
  is unchanged unless the new amount exceeds it; a run of \<open>update_order_fills\<close> keeps
  the status and never lowers the filled amount; the cancellation upsert and
  \<open>record_cancel\<close> leave the whole row as it is.
\<close>

theorem C1_terminal_state:
  "\<forall>i < length (orders w).
     state (orders w ! i) = FILLED \<or> state (orders w ! i) = CANCELED \<longrightarrow>
       state (snd (UPDATE_ORDER_FILL_STMT (a, t, sg) (orders w)) ! i) = state (orders w ! i)
     \<and> amount_fill (snd (UPDATE_ORDER_FILL_STMT (a, t, sg) (orders w)) ! i) =
         (if signature (orders w ! i) = sg then max (amount_fill (orders w ! i)) a
          else amount_fill (orders w ! i))
     \<and> state (orders (snd (update_order_fills env os w)) ! i) = state (orders w ! i)
     \<and> amount_fill (orders w ! i) \<le> amount_fill (orders (snd (update_order_fills env os w)) ! i)
     \<and> snd (UPSERT_CANCELED_ORDER_STMT p (orders w)) ! i = orders w ! i
     \<and> orders (snd (record_cancel env ev w)) ! i = orders w ! i"
proof (intro allI impI)
  fix i
  assume i: "i < length (orders w)"
    and st: "state (orders w ! i) = FILLED \<or> state (orders w ! i) = CANCELED"
  have 1: "state (snd (UPDATE_ORDER_FILL_STMT (a, t, sg) (orders w)) ! i) = state (orders w ! i)"
    using i st by (auto simp add: UPDATE_nth fill_set_def)
  have 2: "amount_fill (snd (UPDATE_ORDER_FILL_STMT (a, t, sg) (orders w)) ! i) =
         (if signature (orders w ! i) = sg then max (amount_fill (orders w ! i)) a
          else amount_fill (orders w ! i))"
    using i by (simp add: UPDATE_nth fill_set_def)
  have 3: "state (orders (snd (update_order_fills env os w)) ! i) = state (orders w ! i)"
    using i st by (rule update_order_fills_terminal)
  have 4: "amount_fill (orders w ! i) \<le> amount_fill (orders (snd (update_order_fills env os w)) ! i)"
    using i by (rule update_order_fills_amount_mono)
  have 5: "snd (UPSERT_CANCELED_ORDER_STMT q (orders w)) ! i = orders w ! i" for q
    using i st by (auto simp add: UPSERT_nth)
  have 6: "orders (snd (record_cancel env ev w)) ! i = orders w ! i"
    using record_cancel_orders [of env ev w] 5 by auto
  show "state (snd (UPDATE_ORDER_FILL_STMT (a, t, sg) (orders w)) ! i) = state (orders w ! i)
     \<and> amount_fill (snd (UPDATE_ORDER_FILL_STMT (a, t, sg) (orders w)) ! i) =
         (if signature (orders w ! i) = sg then max (amount_fill (orders w ! i)) a
          else amount_fill (orders w ! i))
     \<and> state (orders (snd (update_order_fills env os w)) ! i) = state (orders w ! i)
     \<and> amount_fill (orders w ! i) \<le> amount_fill (orders (snd (update_order_fills env os w)) ! i)
     \<and> snd (UPSERT_CANCELED_ORDER_STMT p (orders w)) ! i = orders w ! i
     \<and> orders (snd (record_cancel env ev w)) ! i = orders w ! i"
    using 1 2 3 4 5 6 by simp
qed

theorem C1_terminal_state_witness:
  "0 < length (orders (sample_world\<lparr>orders := [sample_filled]\<rparr>))
   \<and> state (orders (sample_world\<lparr>orders := [sample_filled]\<rparr>) ! 0) = FILLED
   \<and> state (snd (UPDATE_ORDER_FILL_STMT (150, 13, ''sigO'') [sample_filled]) ! 0) = FILLED
   \<and> amount_fill (snd (UPDATE_ORDER_FILL_STMT (150, 13, ''sigO'') [sample_filled]) ! 0) = 150
   \<and> amount_fill (snd (UPDATE_ORDER_FILL_STMT (40, 13, ''sigO'') [sample_filled]) ! 0) = 100
   \<and> snd (UPSERT_CANCELED_ORDER_STMT (sample_filled\<lparr>state := CANCELED\<rparr>) [sample_filled]) ! 0
       = sample_filled
   \<and> orders (snd (record_cancel sample_env sample_cancel
                     (sample_world\<lparr>orders := [sample_filled]\<rparr>))) ! 0 = sample_filled"
  using C1_terminal_state [where w = "sample_world\<lparr>orders := [sample_filled]\<rparr>"
      and a = 150 and t = 13 and sg = "''sigO''" and env = sample_env
      and os = "[sample_filled]" and p = "sample_filled\<lparr>state := CANCELED\<rparr>"
      and ev = sample_cancel]
    C1_terminal_state [where w = "sample_world\<lparr>orders := [sample_filled]\<rparr>"
      and a = 40 and t = 13 and sg = "''sigO''" and env = sample_env
      and os = "[sample_filled]" and p = "sample_filled\<lparr>state := CANCELED\<rparr>"
      and ev = sample_cancel]
  by (simp add: sample_world_def sample_filled_def sample_order_def)

text \<open>
  Claim C1 as stated fails: a FILLED order with 100 filled receives a fill of 150, and
  its stored filled amount changes.
\<close>

theorem C1_counterexample:
  "state sample_filled = FILLED \<and>
   amount_fill (snd (UPDATE_ORDER_FILL_STMT (150, 13, ''sigO'') [sample_filled]) ! 0)
     \<noteq> amount_fill sample_filled"
  by (simp add: sample_filled_def sample_order_def UPDATE_ORDER_FILL_STMT_def fill_set_def)

subsection \<open>Idempotent recording\<close>

text \<open>
  Claim C2. For a trade event whose insert arguments are built and accepted by the
  store, with row \<open>p\<close>: the row's key is the event's transaction hash and log index;
  \<open>record_trade\<close> reports true exactly when no stored trade has that key, and then
  appends \<open>p\<close>, so that one row with the key is stored; a second delivery of an event
  with the same key reports false and leaves the world as it is, and \<open>process_trade\<close>
  on it only logs, without looking up or refreshing any order. Whatever the event, a
  second \<open>process_trade\<close> changes neither the orders, nor the trades, nor the calls
  made to the contract. The same holds for transfers recorded by \<open>record_transfer\<close>,
  \<open>record_deposit\<close> and \<open>record_withdraw\<close>.
\<close>

theorem C2_idempotent_recording:
  "(trade_insert_args env ev = Inr ia \<longrightarrow> encode_trade ia = Inr p \<longrightarrow>
      toBytes_hexstr env (transactionHash ev) = Inr (fst (trade_key p))
      \<and> coerce_to_int env (logIndex ev) = Inr (snd (trade_key p))
      \<and> fst (record_trade env ev w) = Inr (trade_key p \<notin> trade_key ` set (trades w))
      \<and> trades (snd (record_trade env ev w)) =
          (if trade_key p \<in> trade_key ` set (trades w) then trades w else trades w @ [p])
      \<and> (trade_key p \<notin> trade_key ` set (trades w) \<longrightarrow>
           filter (\<lambda>row. trade_key row = trade_key p) (trades (snd (record_trade env ev w))) = [p])
      \<and> (trade_insert_args env ev' = Inr ia' \<longrightarrow> encode_trade ia' = Inr p' \<longrightarrow>
         trade_key p' = trade_key p \<longrightarrow>
           record_trade env ev' (snd (record_trade env ev w))
             = (Inr False, snd (record_trade env ev w))
           \<and> process_trade env ev' (snd (process_trade env ev w)) =
               (Inr (), emit DEBUG ''duplicate trade txid=%s''
                  (emit DEBUG ''received trade txid=%s'' (snd (process_trade env ev w))))))
   \<and> orders (snd (process_trade env ev (snd (process_trade env ev w))))
        = orders (snd (process_trade env ev w))
   \<and> trades (snd (process_trade env ev (snd (process_trade env ev w))))
        = trades (snd (process_trade env ev w))
   \<and> lookups (snd (process_trade env ev (snd (process_trade env ev w))))
        = lookups (snd (process_trade env ev w))
   \<and> (transfer_insert_args env dir ev = Inr ta \<longrightarrow> encode_transfer ta = Inr q \<longrightarrow>
      toBytes_hexstr env (transactionHash ev) = Inr (fst (transfer_key q))
      \<and> coerce_to_int env (logIndex ev) = Inr (snd (transfer_key q))
      \<and> fst (record_transfer env dir ev w)
          = Inr (transfer_key q \<notin> transfer_key ` set (transfers w))
      \<and> transfers (snd (record_transfer env dir ev w)) =
          (if transfer_key q \<in> transfer_key ` set (transfers w) then transfers w
           else transfers w @ [q])
      \<and> (transfer_key q \<notin> transfer_key ` set (transfers w) \<longrightarrow>
           filter (\<lambda>row. transfer_key row = transfer_key q)
             (transfers (snd (record_transfer env dir ev w))) = [q])
      \<and> (transfer_insert_args env dir' ev' = Inr ta' \<longrightarrow> encode_transfer ta' = Inr q' \<longrightarrow>
         transfer_key q' = transfer_key q \<longrightarrow>
           record_transfer env dir' ev' (snd (record_transfer env dir ev w))
             = (Inr False, snd (record_transfer env dir ev w))))
   \<and> (transfer_insert_args env ''DEPOSIT'' ev = Inr ta \<longrightarrow> encode_transfer ta = Inr q \<longrightarrow>
        record_deposit env ev (snd (record_deposit env ev w))
          = (Inr False, snd (record_deposit env ev w)))
   \<and> (transfer_insert_args env ''WITHDRAW'' ev = Inr ta \<longrightarrow> encode_transfer ta = Inr q \<longrightarrow>
        record_withdraw env ev (snd (record_withdraw env ev w))
          = (Inr False, snd (record_withdraw env ev w)))"
proof (intro conjI impI)
  assume a: "trade_insert_args env ev = Inr ia" "encode_trade ia = Inr p"
  note k = trade_insert_args_key [OF a]
  show "toBytes_hexstr env (transactionHash ev) = Inr (fst (trade_key p))"
    and "coerce_to_int env (logIndex ev) = Inr (snd (trade_key p))"
    using k by simp_all
  show "fst (record_trade env ev w) = Inr (trade_key p \<notin> trade_key ` set (trades w))"
    by (simp add: record_trade_store [OF a])
  show "trades (snd (record_trade env ev w)) =
          (if trade_key p \<in> trade_key ` set (trades w) then trades w else trades w @ [p])"
    by (simp add: record_trade_store [OF a])
  {
    assume n: "trade_key p \<notin> trade_key ` set (trades w)"
    show "filter (\<lambda>row. trade_key row = trade_key p) (trades (snd (record_trade env ev w))) = [p]"
      using n filter_new_key [OF n] by (simp add: record_trade_store [OF a])
  }
  {
    assume b: "trade_insert_args env ev' = Inr ia'" "encode_trade ia' = Inr p'"
      and e: "trade_key p' = trade_key p"
    have in1: "trade_key p' \<in> trade_key ` set (trades (snd (record_trade env ev w)))"
      by (simp add: record_trade_store [OF a] e)
    show "record_trade env ev' (snd (record_trade env ev w))
             = (Inr False, snd (record_trade env ev w))"
      using in1 by (simp add: record_trade_store [OF b])
    have in2: "trade_key p' \<in> trade_key ` set (trades (snd (process_trade env ev w)))"
      using process_trade_records [OF a, of w] e by simp
    show "process_trade env ev' (snd (process_trade env ev w)) =
               (Inr (), emit DEBUG ''duplicate trade txid=%s''
                  (emit DEBUG ''received trade txid=%s'' (snd (process_trade env ev w))))"
      using process_trade_duplicate [OF b in2] .
  }
next
  show "orders (snd (process_trade env ev (snd (process_trade env ev w))))
        = orders (snd (process_trade env ev w))"
    and "trades (snd (process_trade env ev (snd (process_trade env ev w))))
        = trades (snd (process_trade env ev w))"
    and "lookups (snd (process_trade env ev (snd (process_trade env ev w))))
        = lookups (snd (process_trade env ev w))"
    using process_trade_twice [of env ev w] by simp_all
next
  assume a: "transfer_insert_args env dir ev = Inr ta" "encode_transfer ta = Inr q"
  note k = transfer_insert_args_key [OF a]
  show "toBytes_hexstr env (transactionHash ev) = Inr (fst (transfer_key q))"
    and "coerce_to_int env (logIndex ev) = Inr (snd (transfer_key q))"
    using k by simp_all
  show "fst (record_transfer env dir ev w)
          = Inr (transfer_key q \<notin> transfer_key ` set (transfers w))"
    by (simp add: record_transfer_store [OF a])
  show "transfers (snd (record_transfer env dir ev w)) =
          (if transfer_key q \<in> transfer_key ` set (transfers w) then transfers w
           else transfers w @ [q])"
    by (simp add: record_transfer_store [OF a])
  {
    assume n: "transfer_key q \<notin> transfer_key ` set (transfers w)"
    show "filter (\<lambda>row. transfer_key row = transfer_key q)
             (transfers (snd (record_transfer env dir ev w))) = [q]"
      using n filter_new_key [OF n] by (simp add: record_transfer_store [OF a])
  }
  {
    assume b: "transfer_insert_args env dir' ev' = Inr ta'" "encode_transfer ta' = Inr q'"
      and e: "transfer_key q' = transfer_key q"
    have in1: "transfer_key q' \<in> transfer_key ` set (transfers (snd (record_transfer env dir ev w)))"
      by (simp add: record_transfer_store [OF a] e)
    show "record_transfer env dir' ev' (snd (record_transfer env dir ev w))
             = (Inr False, snd (record_transfer env dir ev w))"
      using in1 by (simp add: record_transfer_store [OF b])
  }
next
  assume a: "transfer_insert_args env ''DEPOSIT'' ev = Inr ta" "encode_transfer ta = Inr q"
  show "record_deposit env ev (snd (record_deposit env ev w))
          = (Inr False, snd (record_deposit env ev w))"
    by (simp add: record_deposit_def log_transfer_store [OF a])
next
  assume a: "transfer_insert_args env ''WITHDRAW'' ev = Inr ta" "encode_transfer ta = Inr q"
  show "record_withdraw env ev (snd (record_withdraw env ev w))
          = (Inr False, snd (record_withdraw env ev w))"
    by (simp add: record_withdraw_def log_transfer_store [OF a])
qed

theorem C2_idempotent_recording_witness:
  "fst (record_trade sample_env sample_trade sample_world) = Inr True
   \<and> trades (snd (record_trade sample_env sample_trade sample_world)) = [sample_trade_row]
   \<and> record_trade sample_env sample_trade (snd (record_trade sample_env sample_trade sample_world))
       = (Inr False, snd (record_trade sample_env sample_trade sample_world))
   \<and> process_trade sample_env sample_trade
         (snd (process_trade sample_env sample_trade sample_world)) =
       (Inr (), emit DEBUG ''duplicate trade txid=%s''
                  (emit DEBUG ''received trade txid=%s''
                     (snd (process_trade sample_env sample_trade sample_world))))
   \<and> fst (record_transfer sample_env ''DEPOSIT'' sample_deposit sample_world) = Inr True
   \<and> transfers (snd (record_transfer sample_env ''DEPOSIT'' sample_deposit sample_world))
       = [sample_deposit_row]
   \<and> record_deposit sample_env sample_deposit
         (snd (record_deposit sample_env sample_deposit sample_world))
       = (Inr False, snd (record_deposit sample_env sample_deposit sample_world))"
proof -
  obtain ia where ia: "trade_insert_args sample_env sample_trade = Inr ia"
    and p: "encode_trade ia = Inr sample_trade_row"
    by (simp add: trade_insert_args_def sample_env_def sample_trade_def getitem_def
        hex_item_def encode_trade_def sample_trade_row_def)
  obtain ta where ta: "transfer_insert_args sample_env ''DEPOSIT'' sample_deposit = Inr ta"
    and q: "encode_transfer ta = Inr sample_deposit_row"
    by (simp add: transfer_insert_args_def sample_env_def sample_deposit_def getitem_def
        hex_item_def encode_transfer_def sample_deposit_row_def)
  note t = C2_idempotent_recording [where env = sample_env and ev = sample_trade
      and ia = ia and p = sample_trade_row and ev' = sample_trade and ia' = ia
      and p' = sample_trade_row and w = sample_world]
  note d = C2_idempotent_recording [where env = sample_env and ev = sample_deposit
      and ta = ta and q = sample_deposit_row and dir = "''DEPOSIT''" and w = sample_world]
  have n: "trade_key sample_trade_row \<notin> trade_key ` set (trades sample_world)"
    "transfer_key sample_deposit_row \<notin> transfer_key ` set (transfers sample_world)"
    by (simp_all add: sample_world_def)
  have 1: "fst (record_trade sample_env sample_trade sample_world) = Inr True"
    using t ia p n by simp
  have 2: "trades (snd (record_trade sample_env sample_trade sample_world)) = [sample_trade_row]"
    using t ia p n by (simp add: sample_world_def)
  have 3: "record_trade sample_env sample_trade
        (snd (record_trade sample_env sample_trade sample_world))
       = (Inr False, snd (record_trade sample_env sample_trade sample_world))"
    using t ia p by blast
  have 4: "process_trade sample_env sample_trade
         (snd (process_trade sample_env sample_trade sample_world)) =
       (Inr (), emit DEBUG ''duplicate trade txid=%s''
                  (emit DEBUG ''received trade txid=%s''
                     (snd (process_trade sample_env sample_trade sample_world))))"
    using t ia p by blast
  have 5: "fst (record_transfer sample_env ''DEPOSIT'' sample_deposit sample_world) = Inr True"
    using d ta q n by simp
  have 6: "transfers (snd (record_transfer sample_env ''DEPOSIT'' sample_deposit sample_world))
       = [sample_deposit_row]"
    using d ta q n by (simp add: sample_world_def)
  have 7: "record_deposit sample_env sample_deposit
         (snd (record_deposit sample_env sample_deposit sample_world))
       = (Inr False, snd (record_deposit sample_env sample_deposit sample_world))"
    using d ta q by blast
  show ?thesis using 1 2 3 4 5 6 7 by blast
qed

subsection \<open>Cancellation\<close>

text \<open>
  Claim C3. \<open>record_cancel\<close> on a signature with no stored order inserts an order
  made from the cancellation's terms, with status CANCELED and the get-amount as filled
  amount; on a stored OPEN order it sets CANCELED and the get-amount; on a stored FILLED
  or CANCELED order it writes nothing and returns false. The handler does so for an
  event that carries the signature components (\<open>record_cancel_signed\<close>). For an event
  without \<open>r\<close>, which it classifies as on-chain, it reads \<open>order["r"]\<close> all the same:
  on the sample cancellation without \<open>r\<close> it returns \<open>KeyError\<close> and writes nothing,
  whether no order of the signature is stored, an OPEN one or a FILLED one, while the
  same terms with \<open>r\<close> are inserted.
\<close>

theorem C3_onchain_cancel_not_recorded:
  "cancel_source (args sample_cancel_onchain) = ONCHANIN
   \<and> make_order_hash sample_env (args sample_cancel_onchain) = Inr (PStr ''sigC'')
   \<and> ''sigC'' \<notin> signature ` set (orders sample_world)
   \<and> record_cancel sample_env sample_cancel_onchain sample_world
       = (Inl (KeyError ''r''), sample_world)
   \<and> state (sample_order\<lparr>signature := ''sigC''\<rparr>) = OPEN
   \<and> record_cancel sample_env sample_cancel_onchain
         (sample_world\<lparr>orders := [sample_order\<lparr>signature := ''sigC''\<rparr>]\<rparr>)
       = (Inl (KeyError ''r''),
          sample_world\<lparr>orders := [sample_order\<lparr>signature := ''sigC''\<rparr>]\<rparr>)
   \<and> state (sample_filled\<lparr>signature := ''sigC''\<rparr>) = FILLED
   \<and> record_cancel sample_env sample_cancel_onchain
         (sample_world\<lparr>orders := [sample_filled\<lparr>signature := ''sigC''\<rparr>]\<rparr>)
       = (Inl (KeyError ''r''),
          sample_world\<lparr>orders := [sample_filled\<lparr>signature := ''sigC''\<rparr>]\<rparr>)
   \<and> args sample_cancel = (args sample_cancel_onchain)(''r'' \<mapsto> PStr ''rr'')
   \<and> record_cancel sample_env sample_cancel sample_world =
       (Inr True, emit DEBUG ''recorded order cancel signature=%s''
                    (sample_world\<lparr>orders := [sample_order, sample_cancel_params]\<rparr>))"
proof -
  have a: "cancel_upsert_args sample_env sample_cancel_onchain = Inl (KeyError ''r'')"
    by (simp add: cancel_upsert_args_def sample_env_def sample_cancel_onchain_def
        cancel_terms_def getitem_def hex_item_def)
  have r: "record_cancel sample_env sample_cancel_onchain w = (Inl (KeyError ''r''), w)" for w
    using a by (rule record_cancel_raise_args)
  have s: "cancel_source (args sample_cancel_onchain) = ONCHANIN"
    by (simp add: cancel_source_def sample_cancel_onchain_def cancel_terms_def)
  have h: "make_order_hash sample_env (args sample_cancel_onchain) = Inr (PStr ''sigC'')"
    by (simp add: sample_env_def)
  have n: "''sigC'' \<notin> signature ` set (orders sample_world)"
    by (simp add: sample_world_def sample_order_def)
  have st: "state (sample_order\<lparr>signature := ''sigC''\<rparr>) = OPEN"
    "state (sample_filled\<lparr>signature := ''sigC''\<rparr>) = FILLED"
    by (simp_all add: sample_order_def sample_filled_def)
  have e: "args sample_cancel = (args sample_cancel_onchain)(''r'' \<mapsto> PStr ''rr'')"
    by (simp add: sample_cancel_def sample_cancel_onchain_def)
  obtain b where b: "cancel_upsert_args sample_env sample_cancel = Inr b"
    and p: "encode_order b = Inr sample_cancel_params"
    by (simp add: cancel_upsert_args_def sample_env_def sample_cancel_def cancel_terms_def
        getitem_def hex_item_def encode_order_def sample_cancel_params_def cancel_source_def)
  have n': "signature sample_cancel_params \<notin> signature ` set (orders sample_world)"
    by (simp add: sample_cancel_params_def sample_world_def sample_order_def)
  have i: "record_cancel sample_env sample_cancel sample_world =
       (Inr True, emit DEBUG ''recorded order cancel signature=%s''
                    (sample_world\<lparr>orders := [sample_order, sample_cancel_params]\<rparr>))"
  proof -
    have o: "orders sample_world @ [sample_cancel_params] = [sample_order, sample_cancel_params]"
      by (simp add: sample_world_def)
    show ?thesis
      by (simp only: record_cancel_store [OF b p] UPSERT_insert [OF n'] o fst_conv snd_conv)
        simp
  qed
  show ?thesis using s h n r st e i by simp
qed

subsection \<open>The status rule of the fill update\<close>

text \<open>
  Claim C4. For every stored order whose signature is the one given, the fill update
  sets the filled amount to the larger of the stored and the new amount, and the status
  by the rule: a status of FILLED or CANCELED is kept; otherwise the status is FILLED
  when that resulting amount reaches the order's get-amount, and OPEN when it does not.
  Rows with another signature are left as they are, the store reports the number of
  matching rows, and when no order has the signature it reports zero rows and the table
  is unchanged.
\<close>

theorem C4_fill_status_rule:
  "(\<forall>i < length tbl. signature (tbl ! i) = sg \<longrightarrow>
      amount_fill (snd (UPDATE_ORDER_FILL_STMT (a, t, sg) tbl) ! i) = max (amount_fill (tbl ! i)) a
      \<and> state (snd (UPDATE_ORDER_FILL_STMT (a, t, sg) tbl) ! i) =
          (if state (tbl ! i) = FILLED \<or> state (tbl ! i) = CANCELED then state (tbl ! i)
           else if max (amount_fill (tbl ! i)) a \<ge> amount_get (tbl ! i) then FILLED
           else OPEN))
   \<and> (\<forall>i < length tbl. signature (tbl ! i) \<noteq> sg \<longrightarrow>
        snd (UPDATE_ORDER_FILL_STMT (a, t, sg) tbl) ! i = tbl ! i)
   \<and> fst (UPDATE_ORDER_FILL_STMT (a, t, sg) tbl) = length (filter (\<lambda>row. signature row = sg) tbl)
   \<and> (sg \<notin> signature ` set tbl \<longrightarrow> UPDATE_ORDER_FILL_STMT (a, t, sg) tbl = (0, tbl))"
  by (simp add: UPDATE_nth UPDATE_no_match fill_set_def) (simp add: UPDATE_ORDER_FILL_STMT_def)

text \<open>
  The scenario of the specification: an OPEN order with get-amount 100 and nothing
  filled receives the fills 60, 100 and 40 in turn; and a fill for an unknown signature.
\<close>

theorem C4_fill_status_rule_witness:
  "(let t1 = snd (UPDATE_ORDER_FILL_STMT (60, 11, ''sigO'') [sample_order]);
        t2 = snd (UPDATE_ORDER_FILL_STMT (100, 12, ''sigO'') t1);
        t3 = snd (UPDATE_ORDER_FILL_STMT (40, 13, ''sigO'') t2)
    in signature ([sample_order] ! 0) = ''sigO''
       \<and> amount_fill (t1 ! 0) = 60 \<and> state (t1 ! 0) = OPEN
       \<and> amount_fill (t2 ! 0) = 100 \<and> state (t2 ! 0) = FILLED
       \<and> amount_fill (t3 ! 0) = 100 \<and> state (t3 ! 0) = FILLED
       \<and> ''none'' \<notin> signature ` set [sample_order]
       \<and> UPDATE_ORDER_FILL_STMT (60, 11, ''none'') [sample_order] = (0, [sample_order]))"
  using C4_fill_status_rule [of "[sample_order]" "''sigO''" 60 11]
    C4_fill_status_rule [of "[sample_order]" "''none''" 60 11]
  by (simp add: sample_order_def UPDATE_ORDER_FILL_STMT_def fill_set_def)

subsection \<open>Monotone fills\<close>

text \<open>
  Claim C5. For every stored order and every finite sequence of fill updates on its
  signature with amounts \<open>a1..an\<close>, the stored filled amount after the sequence is the
  maximum of \<open>a1..an\<close> and the initial filled amount; and no single fill update, on
  whatever signature, lowers the stored filled amount of any order.
\<close>

theorem C5_fill_monotone:
  "(\<forall>i < length tbl. signature (tbl ! i) = sg \<longrightarrow>
      amount_fill ((fold (\<lambda>c tbl. snd (UPDATE_ORDER_FILL_STMT (fst c, snd c, sg) tbl)) cs tbl) ! i) =
        Max (insert (amount_fill (tbl ! i)) (set (map fst cs))))
   \<and> (\<forall>i < length tbl.
        amount_fill (tbl ! i) \<le> amount_fill (snd (UPDATE_ORDER_FILL_STMT (a, t, sg') tbl) ! i))"
proof -
  have 1: "amount_fill ((fold (\<lambda>c tbl. snd (UPDATE_ORDER_FILL_STMT (fst c, snd c, sg) tbl)) cs tbl) ! i) =
        Max (insert (amount_fill (tbl ! i)) (set (map fst cs)))"
    if "i < length tbl" "signature (tbl ! i) = sg" for i
    using that by (simp add: fold_fill_amount fold_max_Max)
  have 2: "amount_fill (tbl ! i) \<le> amount_fill (snd (UPDATE_ORDER_FILL_STMT (a, t, sg') tbl) ! i)"
    if "i < length tbl" for i
    using that by (simp add: UPDATE_nth fill_set_def)
  show ?thesis using 1 2 by blast
qed

theorem C5_fill_monotone_witness:
  "0 < length [sample_order] \<and> signature ([sample_order] ! 0) = ''sigO''
   \<and> amount_fill (fold (\<lambda>c tbl. snd (UPDATE_ORDER_FILL_STMT (fst c, snd c, ''sigO'') tbl))
                    [(60, 11), (100, 12), (40, 13)] [sample_order] ! 0) = 100
   \<and> amount_fill ([sample_filled] ! 0)
       \<le> amount_fill (snd (UPDATE_ORDER_FILL_STMT (40, 13, ''sigO'') [sample_filled]) ! 0)"
  using C5_fill_monotone [where tbl = "[sample_order]" and sg = "''sigO''"
      and cs = "[(60, 11), (100, 12), (40, 13)]"]
    C5_fill_monotone [where tbl = "[sample_filled]" and sg' = "''sigO''" and a = 40 and t = 13]
  by (simp add: sample_order_def sample_filled_def)

subsection \<open>Affected orders\<close>

text \<open>
  Claim C6. For a trade that \<open>record_trade\<close> has newly inserted, with the event's
  block number, maker (the argument \<open>get\<close>) and tokens named: the token the lookup
  uses is the trade's get-token when its give-token is the zero address and the
  give-token otherwise; \<open>fetch_affected_orders\<close> returns exactly the stored orders
  whose user is the maker, whose give-token or get-token is that token, and whose expiry
  is at least the block number; \<open>process_trade\<close> refreshes those orders, and when
  there are none it returns normally after logging a warning, with no order written and
  no call made to the contract.
\<close>

theorem C6_affected_orders:
  "record_trade env ev (emit DEBUG ''received trade txid=%s'' w) = (Inr True, w1) \<Longrightarrow>
   coerce_to_int env (blockNumber ev) = Inr bn \<Longrightarrow>
   args ev ''get'' = Some makerv \<Longrightarrow> toBytes_hexstr env makerv = Inr maker \<Longrightarrow>
   args ev ''tokenGive'' = Some tg \<Longrightarrow> toBytes_hexstr env tg = Inr tgb \<Longrightarrow>
   args ev ''tokenGet'' = Some tt \<Longrightarrow> toBytes_hexstr env tt = Inr ttb \<Longrightarrow>
   (let coin_addr = (if tg = PStr ZERO_ADDR then tt else tg);
        coin = (if tg = PStr ZERO_ADDR then ttb else tgb);
        affected = filter (\<lambda>row. user row = maker
                              \<and> (token_give row = coin \<or> token_get row = coin)
                              \<and> bn \<le> expires row) (orders w)
    in coin_addr_of (args ev) = Inr coin_addr
       \<and> fetch_affected_orders env makerv coin_addr bn w1 = Inr affected
       \<and> process_trade env ev w =
           (if affected = []
            then (Inr (), emit DEBUG ''done order updates for txid=%s''
                            (emit WARNING NO_ORDERS_MSG (emit INFO RECORDED_MSG w1)))
            else (case update_order_fills env affected
                         (emit DEBUG ''updating up to %i orders for trade txid=%s''
                            (emit INFO RECORDED_MSG w1)) of
                    (Inl e, w') \<Rightarrow> (Inl e, w')
                  | (Inr _, w') \<Rightarrow> (Inr (), emit DEBUG ''done order updates for txid=%s'' w')))
       \<and> (affected = [] \<longrightarrow>
            fst (process_trade env ev w) = Inr ()
            \<and> orders (snd (process_trade env ev w)) = orders w
            \<and> lookups (snd (process_trade env ev w)) = lookups w
            \<and> (WARNING, NO_ORDERS_MSG) \<in> set (logged (snd (process_trade env ev w)))))"
proof -
  assume ins: "record_trade env ev (emit DEBUG ''received trade txid=%s'' w) = (Inr True, w1)"
    and bn: "coerce_to_int env (blockNumber ev) = Inr bn"
    and mk: "args ev ''get'' = Some makerv" "toBytes_hexstr env makerv = Inr maker"
    and tg: "args ev ''tokenGive'' = Some tg" "toBytes_hexstr env tg = Inr tgb"
    and tt: "args ev ''tokenGet'' = Some tt" "toBytes_hexstr env tt = Inr ttb"
  let ?coin_addr = "if tg = PStr ZERO_ADDR then tt else tg"
  let ?coin = "if tg = PStr ZERO_ADDR then ttb else tgb"
  let ?affected = "filter (\<lambda>row. user row = maker
                              \<and> (token_give row = ?coin \<or> token_get row = ?coin)
                              \<and> bn \<le> expires row) (orders w)"
  from record_trade_True [OF ins] obtain ia p where
    ia: "trade_insert_args env ev = Inr ia" and p: "encode_trade ia = Inr p"
    and w1: "w1 = emit DEBUG ''recorded trade txid=%s, logidx=%i''
               ((emit DEBUG ''received trade txid=%s'' w)
                  \<lparr>trades := trades (emit DEBUG ''received trade txid=%s'' w) @ [p]\<rparr>)"
    by blast
  have ow: "orders w1 = orders w" and lw: "lookups w1 = lookups w"
    by (simp_all add: w1)
  obtain li where li: "coerce_to_int env (logIndex ev) = Inr li"
    using trade_insert_args_key [OF ia p] by blast
  have c: "coin_addr_of (args ev) = Inr ?coin_addr"
    using tg(1) tt(1) by (rule coin_addr_of_eq)
  have hc: "toBytes_hexstr env ?coin_addr = Inr ?coin"
    using tg(2) tt(2) by simp
  have f: "fetch_affected_orders env makerv ?coin_addr bn w1 = Inr ?affected"
    unfolding fetch_affected_orders_def FETCH_AFFECTED_ORDERS_STMT_def
    by (simp only: mk(2) hc bind_e.simps ow)
  have g: "getitem (args ev) ''get'' = Inr makerv"
    using mk(1) by (simp add: getitem_def)
  have r: "refresh_after_trade env ev w1 =
           (if ?affected = []
            then (Inr (), emit DEBUG ''done order updates for txid=%s''
                            (emit WARNING NO_ORDERS_MSG (emit INFO RECORDED_MSG w1)))
            else (case update_order_fills env ?affected
                         (emit DEBUG ''updating up to %i orders for trade txid=%s''
                            (emit INFO RECORDED_MSG w1)) of
                    (Inl e, w') \<Rightarrow> (Inl e, w')
                  | (Inr _, w') \<Rightarrow> (Inr (), emit DEBUG ''done order updates for txid=%s'' w')))"
    unfolding refresh_after_trade_def
    by (simp add: li bn g c f)
  have pt: "process_trade env ev w = refresh_after_trade env ev w1"
    by (simp add: process_trade_def ins)
  have e: "fst (process_trade env ev w) = Inr ()
            \<and> orders (snd (process_trade env ev w)) = orders w
            \<and> lookups (snd (process_trade env ev w)) = lookups w
            \<and> (WARNING, NO_ORDERS_MSG) \<in> set (logged (snd (process_trade env ev w)))"
    if "?affected = []"
    using that by (simp add: pt r ow lw)
  show ?thesis
    unfolding Let_def using c f r pt e by simp
qed

theorem C6_affected_orders_witness:
  "coin_addr_of (args sample_trade) = Inr (PStr ''tokA'')
   \<and> fetch_affected_orders sample_env (PStr ''maker'') (PStr ''tokA'') 7
         (snd (record_trade sample_env sample_trade
                 (emit DEBUG ''received trade txid=%s'' sample_world))) = Inr [sample_order]
   \<and> coin_addr_of (args sample_trade_native) = Inr (PStr ''tokZ'')
   \<and> fetch_affected_orders sample_env (PStr ''maker'') (PStr ''tokZ'') 7
         (snd (record_trade sample_env sample_trade_native
                 (emit DEBUG ''received trade txid=%s'' sample_world))) = Inr []
   \<and> fst (process_trade sample_env sample_trade_native sample_world) = Inr ()
   \<and> orders (snd (process_trade sample_env sample_trade_native sample_world))
       = orders sample_world
   \<and> lookups (snd (process_trade sample_env sample_trade_native sample_world)) = []"
proof -
  let ?w0 = "emit DEBUG ''received trade txid=%s'' sample_world"
  obtain ia where ia: "trade_insert_args sample_env sample_trade = Inr ia"
    and p: "encode_trade ia = Inr sample_trade_row"
    by (simp add: trade_insert_args_def sample_env_def sample_trade_def getitem_def
        hex_item_def encode_trade_def sample_trade_row_def)
  obtain ib pb where ib: "trade_insert_args sample_env sample_trade_native = Inr ib"
    and pb: "encode_trade ib = Inr pb"
    by (simp add: trade_insert_args_def sample_env_def sample_trade_native_def sample_trade_def
        getitem_def hex_item_def encode_trade_def)
  have e: "trades sample_world = []" by (simp add: sample_world_def)
  have insa: "record_trade sample_env sample_trade ?w0 =
      (Inr True, snd (record_trade sample_env sample_trade ?w0))"
    by (simp add: record_trade_store [OF ia p] e)
  have insb: "record_trade sample_env sample_trade_native ?w0 =
      (Inr True, snd (record_trade sample_env sample_trade_native ?w0))"
    by (simp add: record_trade_store [OF ib pb] e)
  have ha: "coerce_to_int sample_env (blockNumber sample_trade) = Inr 7"
    "args sample_trade ''get'' = Some (PStr ''maker'')"
    "toBytes_hexstr sample_env (PStr ''maker'') = Inr ''maker''"
    "args sample_trade ''tokenGive'' = Some (PStr ''tokA'')"
    "toBytes_hexstr sample_env (PStr ''tokA'') = Inr ''tokA''"
    "args sample_trade ''tokenGet'' = Some (PStr ''tokB'')"
    "toBytes_hexstr sample_env (PStr ''tokB'') = Inr ''tokB''"
    by (simp_all add: sample_env_def sample_trade_def)
  have hb: "coerce_to_int sample_env (blockNumber sample_trade_native) = Inr 7"
    "args sample_trade_native ''get'' = Some (PStr ''maker'')"
    "toBytes_hexstr sample_env (PStr ''maker'') = Inr ''maker''"
    "args sample_trade_native ''tokenGive'' = Some (PStr ZERO_ADDR)"
    "toBytes_hexstr sample_env (PStr ZERO_ADDR) = Inr ZERO_ADDR"
    "args sample_trade_native ''tokenGet'' = Some (PStr ''tokZ'')"
    "toBytes_hexstr sample_env (PStr ''tokZ'') = Inr ''tokZ''"
    by (simp_all add: sample_env_def sample_trade_native_def sample_trade_def)
  have za: "PStr ''tokA'' \<noteq> PStr ZERO_ADDR" by (simp add: ZERO_ADDR_def)
  have fa: "filter (\<lambda>row. user row = ''maker''
                \<and> (token_give row = ''tokA'' \<or> token_get row = ''tokA'')
                \<and> 7 \<le> expires row) (orders sample_world) = [sample_order]"
    by (simp add: sample_world_def sample_order_def)
  have fb: "filter (\<lambda>row. user row = ''maker''
                \<and> (token_give row = ''tokZ'' \<or> token_get row = ''tokZ'')
                \<and> 7 \<le> expires row) (orders sample_world) = []"
    by (simp add: sample_world_def sample_order_def)
  note ta = C6_affected_orders [OF insa ha, unfolded Let_def]
  note tb = C6_affected_orders [OF insb hb, unfolded Let_def]
  have 1: "coin_addr_of (args sample_trade) = Inr (PStr ''tokA'')"
    using ta za by simp
  have 2: "fetch_affected_orders sample_env (PStr ''maker'') (PStr ''tokA'') 7
         (snd (record_trade sample_env sample_trade ?w0)) = Inr [sample_order]"
    using ta za fa by simp
  have 3: "coin_addr_of (args sample_trade_native) = Inr (PStr ''tokZ'')"
    using tb by simp
  have 4: "fetch_affected_orders sample_env (PStr ''maker'') (PStr ''tokZ'') 7
         (snd (record_trade sample_env sample_trade_native ?w0)) = Inr []"
    using tb fb by simp
  let ?aff = "filter (\<lambda>row. user row = ''maker''
                \<and> (token_give row = (if PStr ZERO_ADDR = PStr ZERO_ADDR then ''tokZ'' else ZERO_ADDR)
                   \<or> token_get row = (if PStr ZERO_ADDR = PStr ZERO_ADDR then ''tokZ'' else ZERO_ADDR))
                \<and> 7 \<le> expires row) (orders sample_world)"
  have ae: "?aff = []" using fb by simp
  have "?aff = [] \<longrightarrow>
     fst (process_trade sample_env sample_trade_native sample_world) = Inr ()
     \<and> orders (snd (process_trade sample_env sample_trade_native sample_world))
         = orders sample_world
     \<and> lookups (snd (process_trade sample_env sample_trade_native sample_world))
         = lookups sample_world
     \<and> (WARNING, NO_ORDERS_MSG)
         \<in> set (logged (snd (process_trade sample_env sample_trade_native sample_world)))"
    using tb by blast
  with ae have 5: "fst (process_trade sample_env sample_trade_native sample_world) = Inr ()
     \<and> orders (snd (process_trade sample_env sample_trade_native sample_world))
         = orders sample_world
     \<and> lookups (snd (process_trade sample_env sample_trade_native sample_world))
         = lookups sample_world"
    by blast
  have 6: "lookups sample_world = []" by (simp add: sample_world_def)
  show ?thesis using 1 2 3 4 5 6 by simp
qed

subsection \<open>Refreshing fills\<close>




subsection \<open>Provenance of a cancelled order\<close>

text \<open>
  Claim C8. \<open>record_cancel\<close> classifies the order's source by the signature component
  \<open>r\<close> alone: the source is OFFCHAIN exactly when the event's arguments hold the key
  \<open>r\<close> with a value other than \<open>None\<close>, and on-chain otherwise; two argument
  dictionaries that agree on \<open>r\<close> get the same source; and the source column of the
  upsert arguments is this classification.
\<close>

theorem C8_cancel_source:
  "(cancel_source order = OFFCHAIN \<longleftrightarrow> (\<exists>x. order ''r'' = Some x \<and> x \<noteq> PNone))
   \<and> (cancel_source order = ONCHANIN \<longleftrightarrow> \<not> (\<exists>x. order ''r'' = Some x \<and> x \<noteq> PNone))
   \<and> (order ''r'' = order' ''r'' \<longrightarrow> cancel_source order = cancel_source order')
   \<and> (cancel_upsert_args env ev = Inr a \<longrightarrow> source a = cancel_source (args ev))"
  by (auto simp add: cancel_source_def cancel_upsert_args_source)

theorem C8_cancel_source_witness:
  "cancel_source (args sample_cancel) = OFFCHAIN
   \<and> cancel_source (args sample_cancel_onchain) = ONCHANIN
   \<and> cancel_source (cancel_terms(''r'' \<mapsto> PNone)) = ONCHANIN
   \<and> (case cancel_upsert_args sample_env sample_cancel of
         Inl e \<Rightarrow> False | Inr a \<Rightarrow> source a = OFFCHAIN)"
proof -
  obtain a where a: "cancel_upsert_args sample_env sample_cancel = Inr a"
    by (simp add: cancel_upsert_args_def sample_env_def sample_cancel_def cancel_terms_def
        getitem_def hex_item_def)
  have r1: "\<exists>x. args sample_cancel ''r'' = Some x \<and> x \<noteq> PNone"
    by (simp add: sample_cancel_def)
  have r2: "\<not> (\<exists>x. args sample_cancel_onchain ''r'' = Some x \<and> x \<noteq> PNone)"
    by (simp add: sample_cancel_onchain_def cancel_terms_def)
  have r3: "\<not> (\<exists>x. (cancel_terms(''r'' \<mapsto> PNone)) ''r'' = Some x \<and> x \<noteq> PNone)"
    by simp
  have 1: "cancel_source (args sample_cancel) = OFFCHAIN"
    using C8_cancel_source [where order = "args sample_cancel" and order' = "args sample_cancel"
        and env = sample_env and ev = sample_cancel and a = a] r1
    by blast
  have 2: "cancel_source (args sample_cancel_onchain) = ONCHANIN"
    using C8_cancel_source [where order = "args sample_cancel_onchain"
        and order' = "args sample_cancel" and env = sample_env and ev = sample_cancel and a = a] r2
    by blast
  have 3: "cancel_source (cancel_terms(''r'' \<mapsto> PNone)) = ONCHANIN"
    using C8_cancel_source [where order = "cancel_terms(''r'' \<mapsto> PNone)"
        and order' = "args sample_cancel" and env = sample_env and ev = sample_cancel and a = a] r3
    by blast
  have 4: "source a = OFFCHAIN"
    using C8_cancel_source [where order = "args sample_cancel" and order' = "args sample_cancel"
        and env = sample_env and ev = sample_cancel and a = a] a 1
    by simp
  show ?thesis using 1 2 3 4 by (simp add: a)
qed

subsection \<open>Cancellations without a signature component\<close>

text \<open>
  Claim C9. For every cancellation event whose arguments lack the key \<open>r\<close> or hold
  \<open>None\<close> under it, that is, every event classified as on-chain, \<open>record_cancel\<close>
  raises while it builds the upsert arguments and leaves the world as it was, so no
  order record is written. When every step before \<open>int(order["v"])\<close> succeeds, the
  exception is the one that \<open>int(order["v"])\<close> raises or, when that succeeds, the
  \<open>KeyError\<close> of \<open>order["r"]\<close> or the \<open>TypeError\<close> of \<open>Web3.toBytes(text=None)\<close>.
\<close>

theorem C9_onchain_cancel_raises:
  "args ev ''r'' = None \<or> args ev ''r'' = Some PNone \<Longrightarrow>
     cancel_source (args ev) = ONCHANIN
     \<and> (\<exists>e. cancel_upsert_args env ev = Inl e \<and> record_cancel env ev w = (Inl e, w))
     \<and> (getitem (args ev) ''user'' = Inr um \<longrightarrow>
        make_order_hash env (args ev) = Inr sg \<longrightarrow>
        block_timestamp env (blockNumber ev) = Inr d \<longrightarrow>
        toBytes_hexstr env sg = Inr sb \<longrightarrow>
        hex_item env (args ev) ''tokenGive'' = Inr tg \<longrightarrow>
        getitem (args ev) ''amountGive'' = Inr ag \<longrightarrow>
        hex_item env (args ev) ''tokenGet'' = Inr tt \<longrightarrow>
        getitem (args ev) ''amountGet'' = Inr at \<longrightarrow>
        getitem (args ev) ''expires'' = Inr ex \<longrightarrow>
        getitem (args ev) ''nonce'' = Inr no \<longrightarrow>
        hex_item env (args ev) ''user'' = Inr ub \<longrightarrow>
        cancel_upsert_args env ev =
          (case bind_e (getitem (args ev) ''v'') (py_int env) of
             Inl e \<Rightarrow> Inl e
           | Inr _ \<Rightarrow> Inl (if args ev ''r'' = None then KeyError ''r'' else TypeError)))"
proof -
  assume r: "args ev ''r'' = None \<or> args ev ''r'' = Some PNone"
  have 1: "cancel_source (args ev) = ONCHANIN"
    using r by (auto simp add: cancel_source_def)
  obtain e where e: "cancel_upsert_args env ev = Inl e"
    using cancel_upsert_args_raises [OF r] by blast
  have 2: "\<exists>e. cancel_upsert_args env ev = Inl e \<and> record_cancel env ev w = (Inl e, w)"
    using e by (simp add: record_cancel_raise_args)
  show ?thesis
    using 1 2 cancel_upsert_args_at_v_or_r [where ev = ev and env = env, OF _ _ _ _ _ _ _ _ _ _ _ r]
    by blast
qed

theorem C9_onchain_cancel_raises_witness:
  "args sample_cancel_onchain ''r'' = None
   \<and> cancel_source (args sample_cancel_onchain) = ONCHANIN
   \<and> cancel_upsert_args sample_env sample_cancel_onchain = Inl (KeyError ''r'')
   \<and> record_cancel sample_env sample_cancel_onchain sample_world
       = (Inl (KeyError ''r''), sample_world)"
proof -
  let ?ev = sample_cancel_onchain
  have r: "args ?ev ''r'' = None"
    by (simp add: sample_cancel_onchain_def cancel_terms_def)
  note t = C9_onchain_cancel_raises [where ev = ?ev and env = sample_env
      and w = sample_world and um = "PStr ''maker''" and sg = "PStr ''sigC''" and d = 1009
      and sb = "''sigC''" and tg = "''tokA''" and ag = "PInt 5" and tt = "''tokB''"
      and at = "PInt 100" and ex = "PInt 2000" and no = "PInt 1" and ub = "''maker''",
      OF disjI1 [OF r]]
  have h: "getitem (args ?ev) ''user'' = Inr (PStr ''maker'')"
    "make_order_hash sample_env (args ?ev) = Inr (PStr ''sigC'')"
    "block_timestamp sample_env (blockNumber ?ev) = Inr 1009"
    "toBytes_hexstr sample_env (PStr ''sigC'') = Inr ''sigC''"
    "hex_item sample_env (args ?ev) ''tokenGive'' = Inr ''tokA''"
    "getitem (args ?ev) ''amountGive'' = Inr (PInt 5)"
    "hex_item sample_env (args ?ev) ''tokenGet'' = Inr ''tokB''"
    "getitem (args ?ev) ''amountGet'' = Inr (PInt 100)"
    "getitem (args ?ev) ''expires'' = Inr (PInt 2000)"
    "getitem (args ?ev) ''nonce'' = Inr (PInt 1)"
    "hex_item sample_env (args ?ev) ''user'' = Inr ''maker''"
    by (simp_all add: sample_cancel_onchain_def cancel_terms_def sample_env_def getitem_def
        hex_item_def)
  have v: "bind_e (getitem (args ?ev) ''v'') (py_int sample_env) = Inr 27"
    by (simp add: sample_cancel_onchain_def cancel_terms_def getitem_def)
  from t h have "cancel_upsert_args sample_env ?ev =
      (case bind_e (getitem (args ?ev) ''v'') (py_int sample_env) of
         Inl e \<Rightarrow> Inl e
       | Inr _ \<Rightarrow> Inl (if args ?ev ''r'' = None then KeyError ''r'' else TypeError))"
    by blast
  then have a: "cancel_upsert_args sample_env ?ev = Inl (KeyError ''r'')"
    by (simp add: v r)
  from t obtain e where e: "cancel_upsert_args sample_env ?ev = Inl e"
    "record_cancel sample_env ?ev sample_world = (Inl e, sample_world)"
    by blast
  from t have s: "cancel_source (args ?ev) = ONCHANIN" by blast
  from a e have "record_cancel sample_env ?ev sample_world = (Inl (KeyError ''r''), sample_world)"
    by simp
  with r a s show ?thesis by simp
qed

subsection \<open>Frame of the fill update\<close>

text \<open>
  Claim C10. For every stored order whose signature matches, an execution of the fill
  update sets \<open>updated\<close> to the new timestamp, whatever the order's status, and the
  row differs from the old one in \<open>amount_fill\<close>, \<open>state\<close> and \<open>updated\<close> only;
  \<open>update_order_fills\<close> on one order executes the statement with the timestamp of the
  latest block.
\<close>

theorem C10_fill_update_frame:
  "(\<forall>i < length tbl. signature (tbl ! i) = sg \<longrightarrow>
      updated (snd (UPDATE_ORDER_FILL_STMT (a, t, sg) tbl) ! i) = t
      \<and> snd (UPDATE_ORDER_FILL_STMT (a, t, sg) tbl) ! i =
          (tbl ! i)\<lparr>amount_fill := amount_fill (snd (UPDATE_ORDER_FILL_STMT (a, t, sg) tbl) ! i),
                    state := state (snd (UPDATE_ORDER_FILL_STMT (a, t, sg) tbl) ! i),
                    updated := t\<rparr>)
   \<and> (block_timestamp env (PStr ''latest'') = Inr ts \<longrightarrow>
      orderFills env (toHex env (user order)) (signature order) = Inr amt \<longrightarrow>
      orders (snd (update_order_fills env [order] w)) =
        snd (UPDATE_ORDER_FILL_STMT (amt, ts, signature order) (orders w)))"
  by (simp add: UPDATE_nth fill_set_def)

theorem C10_fill_update_frame_witness:
  "0 < length [sample_filled] \<and> signature ([sample_filled] ! 0) = ''sigO''
   \<and> state ([sample_filled] ! 0) = FILLED
   \<and> snd (UPDATE_ORDER_FILL_STMT (40, 13, ''sigO'') [sample_filled]) ! 0
       = sample_filled\<lparr>updated := 13\<rparr>
   \<and> block_timestamp sample_env (PStr ''latest'') = Inr 5000
   \<and> orderFills sample_env (toHex sample_env (user sample_filled)) (signature sample_filled)
       = Inr 100
   \<and> orders (snd (update_order_fills sample_env [sample_filled]
                     (sample_world\<lparr>orders := [sample_filled]\<rparr>)))
       = [sample_filled\<lparr>updated := 5000\<rparr>]"
  using C10_fill_update_frame [where tbl = "[sample_filled]" and sg = "''sigO''"
      and a = 40 and t = 13 and env = sample_env and ts = 5000 and amt = 100
      and order = sample_filled and w = "sample_world\<lparr>orders := [sample_filled]\<rparr>"]
  by (simp add: sample_order_def sample_filled_def sample_env_def sample_world_def
      UPDATE_ORDER_FILL_STMT_def fill_set_def)

end
